theory Spec2Isabelle
  imports Complex_Main "HOL-Library.Sublist"
begin

section \<open>Common conventions of the five visual-test scripts\<close>

text \<open>
  The scripts under \<^verbatim>\<open>visual-tests/scripts\<close> drive external collaborators (a Selenium
  WebDriver, the \<^verbatim>\<open>axiom\<close> bindings, \<^verbatim>\<open>scrot\<close>, the file system, the clock).
  Every call into a collaborator is a field of an environment record: it takes the
  state \<open>'w\<close> of the outside world and returns its result together with the next world.
  A call that raises returns \<open>Inl m\<close>, where \<open>m\<close> is \<^verbatim>\<open>str(e)\<close> of the raised
  \<^verbatim>\<open>Exception\<close>; a call that returns \<open>v\<close> gives \<open>Inr v\<close>. Asynchronous
  interrupts (\<^verbatim>\<open>KeyboardInterrupt\<close>, \<^verbatim>\<open>SystemExit\<close>) are not modelled;
  \<^verbatim>\<open>print\<close> and \<^verbatim>\<open>time.sleep\<close> have no effect on the modelled state and are left out.
\<close>

type_synonym 'a res = "string + 'a"

record datetime =
  dt_year :: nat
  dt_month :: nat
  dt_day :: nat
  dt_hour :: nat
  dt_minute :: nat
  dt_second :: nat

definition digit_char :: "nat \<Rightarrow> char" where
  "digit_char n = ''0123456789'' ! (n mod 10)"

definition pad2 :: "nat \<Rightarrow> string" where
  "pad2 n = [digit_char (n div 10), digit_char n]"

definition pad4 :: "nat \<Rightarrow> string" where
  "pad4 n = [digit_char (n div 1000), digit_char (n div 100), digit_char (n div 10), digit_char n]"

text \<open>\<^verbatim>\<open>strftime("%Y%m%d_%H%M%S")\<close>, for the years 1000 to 9999 of a Python datetime.\<close>

definition strftime_compact :: "datetime \<Rightarrow> string" where
  "strftime_compact d =
     pad4 (dt_year d) @ pad2 (dt_month d) @ pad2 (dt_day d) @ ''_'' @
     pad2 (dt_hour d) @ pad2 (dt_minute d) @ pad2 (dt_second d)"

text \<open>\<^verbatim>\<open>strftime('%Y-%m-%d %H:%M:%S')\<close>.\<close>

definition strftime_human :: "datetime \<Rightarrow> string" where
  "strftime_human d =
     pad4 (dt_year d) @ ''-'' @ pad2 (dt_month d) @ ''-'' @ pad2 (dt_day d) @ '' '' @
     pad2 (dt_hour d) @ '':'' @ pad2 (dt_minute d) @ '':'' @ pad2 (dt_second d)"

text \<open>\<^verbatim>\<open>str(n)\<close> of a non-negative and of an arbitrary Python integer.\<close>

fun str_nat :: "nat \<Rightarrow> string" where
  "str_nat n = (if n < 10 then [digit_char n] else str_nat (n div 10) @ [digit_char n])"

definition str_int :: "int \<Rightarrow> string" where
  "str_int i = (if i < 0 then ''-'' @ str_nat (nat (- i)) else str_nat (nat i))"

text \<open>\<^verbatim>\<open>sum(1 for x in xs if p(x))\<close>.\<close>

definition sum1 :: "('a \<Rightarrow> bool) \<Rightarrow> 'a list \<Rightarrow> nat" where
  "sum1 p xs = sum_list (map (\<lambda>x. 1) (filter p xs))"

definition base_dir :: string where
  "base_dir = ''/home/agent/projects/axiom/axiom-gui/visual-tests''"

definition screenshots_dir :: string where
  "screenshots_dir = base_dir @ ''/screenshots''"

definition structures_dir :: string where
  "structures_dir = base_dir @ ''/structures''"

definition nl :: string where
  "nl = [CHR 0x0A]"

definition sq :: string where
  "sq = [CHR 0x27]"

text \<open>\<^verbatim>\<open>sep.join(xs)\<close>.\<close>

fun join :: "string \<Rightarrow> string list \<Rightarrow> string" where
  "join sep [] = []"
| "join sep [x] = x"
| "join sep (x # y # ys) = x @ sep @ join sep (y # ys)"

text \<open>\<^verbatim>\<open>s.lower()\<close> on ASCII text, and \<^verbatim>\<open>sub in s\<close>.\<close>

definition lower_char :: "char \<Rightarrow> char" where
  "lower_char c = (let n = (of_char c :: nat) in if 65 \<le> n \<and> n \<le> 90 then char_of (n + 32) else c)"

definition lower :: "string \<Rightarrow> string" where
  "lower s = map lower_char s"

fun contains :: "string \<Rightarrow> string \<Rightarrow> bool" where
  "contains sub [] = (sub = [])"
| "contains sub (c # cs) = (prefix sub (c # cs) \<or> contains sub cs)"

text \<open>\<^verbatim>\<open>Path(name).stem\<close> and \<^verbatim>\<open>Path(name).suffix\<close> of a file name without directories:
  the name is cut at its last dot, unless that dot is the first or the last character.\<close>

definition rfind_dot :: "string \<Rightarrow> nat option" where
  "rfind_dot name =
     (case filter (\<lambda>i. name ! i = CHR ''.'') (rev [0..<length name]) of
        [] \<Rightarrow> None | i # _ \<Rightarrow> Some i)"

definition path_stem :: "string \<Rightarrow> string" where
  "path_stem name =
     (case rfind_dot name of
        Some i \<Rightarrow> if 0 < i \<and> i < length name - 1 then take i name else name
      | None \<Rightarrow> name)"

definition path_suffix :: "string \<Rightarrow> string" where
  "path_suffix name =
     (case rfind_dot name of
        Some i \<Rightarrow> if 0 < i \<and> i < length name - 1 then drop i name else []
      | None \<Rightarrow> [])"

subsection \<open>The clock and the file system\<close>

text \<open>
  \<open>fs_open_w p\<close> is \<^verbatim>\<open>open(p, 'w')\<close>; \<open>fs_glob_sorted d\<close> is
  \<^verbatim>\<open>sorted(d.glob("*"))\<close>, as the file names; \<open>fs_first_line p\<close> is
  \<^verbatim>\<open>open(p).readline().strip()\<close>; \<open>fs_exists p\<close> is \<^verbatim>\<open>p.exists()\<close>.
  Writing to an open file is taken not to raise. What a \<^verbatim>\<open>generate_report\<close> wrote is
  not pushed into the world: each model of \<^verbatim>\<open>generate_report\<close> returns, next to its
  result, the text the report file holds when the \<^verbatim>\<open>with\<close> block is left
  (\<open>None\<close> when the file was never opened).
\<close>

record 'w sys_env =
  now :: "'w \<Rightarrow> datetime \<times> 'w"
  fs_open_w :: "string \<Rightarrow> 'w \<Rightarrow> unit res \<times> 'w"
  fs_glob_sorted :: "string \<Rightarrow> 'w \<Rightarrow> string list res \<times> 'w"
  fs_first_line :: "string \<Rightarrow> 'w \<Rightarrow> string res \<times> 'w"
  fs_exists :: "string \<Rightarrow> 'w \<Rightarrow> bool \<times> 'w"

text \<open>What a run of a script's \<^verbatim>\<open>main\<close> leaves behind: the exception that left
  \<^verbatim>\<open>main\<close> uncaught (if any), the value \<^verbatim>\<open>main\<close> returned otherwise, the tester
  object, the world, and two counters that instrument the run: how often the release
  call (\<^verbatim>\<open>driver.quit()\<close>, \<^verbatim>\<open>gui_process.terminate()\<close>) was executed and how often
  \<^verbatim>\<open>generate_report\<close> was called.\<close>

record ('s, 'w) run =
  run_uncaught :: "string option"
  run_return :: "int option"
  run_state :: 's
  run_world :: 'w
  run_releases :: nat
  run_reports :: nat

text \<open>The exit status of the process: \<^verbatim>\<open>sys.exit(main())\<close> gives the returned integer
  (\<^verbatim>\<open>None\<close> counts as 0), and an uncaught exception gives status 1.\<close>

definition exit_signal :: "('s, 'w) run \<Rightarrow> int" where
  "exit_signal r =
     (case run_uncaught r of
        Some e \<Rightarrow> 1
      | None \<Rightarrow> (case run_return r of None \<Rightarrow> 0 | Some n \<Rightarrow> n))"

section \<open>simple\_visual\_test.py\<close>

text \<open>The two shapes of dictionary appended to \<^verbatim>\<open>self.results\<close>:
  \<^verbatim>\<open>{"name", "description", "file", "success": True}\<close> and
  \<^verbatim>\<open>{"name", "description", "error", "success": False}\<close>.\<close>

datatype sv_result =
  Captured (sv_name: string) (sv_description: string) (sv_file: string)
| NotCaptured (sv_name: string) (sv_description: string) (sv_error: string)

fun sv_success :: "sv_result \<Rightarrow> bool" where
  "sv_success (Captured n d f) = True"
| "sv_success (NotCaptured n d e) = False"

datatype wait_outcome = Exited | TimeoutExpired | WaitRaised string

text \<open>\<open>scrot p\<close> is \<^verbatim>\<open>subprocess.run(["scrot", p], env=..., check=True, timeout=5)\<close>;
  \<open>popen\<close> is the \<^verbatim>\<open>subprocess.Popen\<close> of \<^verbatim>\<open>npm run tauri dev\<close>; \<open>terminate\<close>,
  \<open>wait\<close> (with its five-second timeout) and \<open>kill\<close> act on that process.\<close>

record 'w proc_env =
  scrot :: "string \<Rightarrow> 'w \<Rightarrow> unit res \<times> 'w"
  popen :: "'w \<Rightarrow> unit res \<times> 'w"
  terminate :: "'w \<Rightarrow> unit res \<times> 'w"
  wait :: "'w \<Rightarrow> wait_outcome \<times> 'w"
  kill :: "'w \<Rightarrow> unit res \<times> 'w"

record sv_state =
  sv_gui_process :: bool
  sv_results :: "sv_result list"

definition sv_init :: sv_state where
  "sv_init = \<lparr>sv_gui_process = False, sv_results = []\<rparr>"

definition sv_take_screenshot ::
  "'w sys_env \<Rightarrow> 'w proc_env \<Rightarrow> string \<Rightarrow> string \<Rightarrow> sv_state \<Rightarrow> 'w
     \<Rightarrow> string option \<times> sv_state \<times> 'w" where
  "sv_take_screenshot sys pe name description s w =
     (let (t, w1) = now sys w;
          timestamp = strftime_compact t;
          filename = timestamp @ ''_'' @ name @ ''.png'';
          filepath = screenshots_dir @ ''/'' @ filename
      in case scrot pe filepath w1 of
           (Inr _, w2) \<Rightarrow>
             (Some filepath,
              s\<lparr>sv_results := sv_results s @
                 [Captured name description filename]\<rparr>, w2)
         | (Inl e, w2) \<Rightarrow>
             (None,
              s\<lparr>sv_results := sv_results s @
                 [NotCaptured name description e]\<rparr>, w2))"

definition sv_start_gui :: "'w proc_env \<Rightarrow> sv_state \<Rightarrow> 'w \<Rightarrow> unit res \<times> sv_state \<times> 'w" where
  "sv_start_gui pe s w =
     (case popen pe w of
        (Inl e, w1) \<Rightarrow> (Inl e, s, w1)
      | (Inr _, w1) \<Rightarrow> (Inr (), s\<lparr>sv_gui_process := True\<rparr>, w1))"

text \<open>\<^verbatim>\<open>stop_gui\<close>; the natural number returned counts the executions of
  \<^verbatim>\<open>self.gui_process.terminate()\<close>.\<close>

definition sv_stop_gui :: "'w proc_env \<Rightarrow> sv_state \<Rightarrow> 'w \<Rightarrow> unit res \<times> nat \<times> 'w" where
  "sv_stop_gui pe s w =
     (if sv_gui_process s then
        (case terminate pe w of
           (Inl e, w1) \<Rightarrow> (Inl e, 1, w1)
         | (Inr _, w1) \<Rightarrow>
             (case wait pe w1 of
                (Exited, w2) \<Rightarrow> (Inr (), 1, w2)
              | (TimeoutExpired, w2) \<Rightarrow> (case kill pe w2 of (r, w3) \<Rightarrow> (r, 1, w3))
              | (WaitRaised e, w2) \<Rightarrow> (Inl e, 1, w2)))
      else (Inr (), 0, w))"

text \<open>The loop \<^verbatim>\<open>for i in range(4, 11)\<close> of \<^verbatim>\<open>run_visual_tests\<close>, over the list of
  its indices.\<close>

fun sv_timed_captures ::
  "'w sys_env \<Rightarrow> 'w proc_env \<Rightarrow> nat list \<Rightarrow> sv_state \<Rightarrow> 'w \<Rightarrow> sv_state \<times> 'w" where
  "sv_timed_captures sys pe [] s w = (s, w)"
| "sv_timed_captures sys pe (i # is) s w =
     (case sv_take_screenshot sys pe (pad2 i @ ''_timed_capture'')
             (''GUI state at test '' @ str_nat i) s w of
        (_, s1, w1) \<Rightarrow> sv_timed_captures sys pe is s1 w1)"

definition sv_run_visual_tests ::
  "'w sys_env \<Rightarrow> 'w proc_env \<Rightarrow> sv_state \<Rightarrow> 'w \<Rightarrow> sv_state \<times> 'w" where
  "sv_run_visual_tests sys pe s w =
     (case sv_take_screenshot sys pe ''01_initial_state'' ''GUI initial state after launch'' s w of
        (_, s1, w1) \<Rightarrow>
     (case sv_take_screenshot sys pe ''02_after_5sec'' ''GUI state after 5 seconds'' s1 w1 of
        (_, s2, w2) \<Rightarrow>
     (case sv_take_screenshot sys pe ''03_current_state'' ''Current GUI state'' s2 w2 of
        (_, s3, w3) \<Rightarrow> sv_timed_captures sys pe [4..<11] s3 w3)))"

fun sv_report_entry :: "sv_result \<Rightarrow> string" where
  "sv_report_entry (Captured name description file) =
     ''### '' @ name @ nl @
     (if description \<noteq> [] then description @ nl @ nl else []) @
     ''!['' @ name @ ''](screenshots/'' @ file @ '')'' @ nl @ nl"
| "sv_report_entry (NotCaptured name description error) =
     ''### '' @ name @ '' (FAILED)'' @ nl @
     ''Error: '' @ error @ nl @ nl"

definition sv_report_path :: string where
  "sv_report_path = base_dir @ ''/SIMPLE_VALIDATION_REPORT.md''"

definition sv_generate_report ::
  "'w sys_env \<Rightarrow> sv_state \<Rightarrow> 'w \<Rightarrow> string res \<times> string option \<times> sv_state \<times> 'w" where
  "sv_generate_report sys s w =
     (case fs_open_w sys sv_report_path w of
        (Inl e, w1) \<Rightarrow> (Inl e, None, s, w1)
      | (Inr _, w1) \<Rightarrow>
          (let (t, w2) = now sys w1;
               successful = sum1 sv_success (sv_results s);
               part1 =
                 ''# Axiom GUI Simple Visual Validation'' @ nl @ nl @
                 ''Generated: '' @ strftime_human t @ nl @ nl @
                 ''## Summary'' @ nl @ nl @
                 ''- Screenshots Captured: '' @ str_nat successful @ ''/'' @
                   str_nat (length (sv_results s)) @ nl @ nl @
                 ''## Test Structures Available'' @ nl @ nl
           in case fs_glob_sorted sys structures_dir w2 of
                (Inl e, w3) \<Rightarrow> (Inl e, Some part1, s, w3)
              | (Inr names, w3) \<Rightarrow>
                  (let doc = part1 @
                         concat (map (\<lambda>n. ''- `'' @ n @ ''`'' @ nl) names) @
                         nl @ ''## Screenshots'' @ nl @ nl @
                         concat (map sv_report_entry (sv_results s))
                   in (Inr sv_report_path, Some doc, s, w3))))"

text \<open>\<^verbatim>\<open>main\<close>: the \<^verbatim>\<open>try\<close> body, then the \<^verbatim>\<open>finally\<close> clause. An exception of the
  \<^verbatim>\<open>finally\<close> clause replaces the one of the body.\<close>

definition sv_main_body ::
  "'w sys_env \<Rightarrow> 'w proc_env \<Rightarrow> sv_state \<Rightarrow> 'w \<Rightarrow> unit res \<times> nat \<times> sv_state \<times> 'w" where
  "sv_main_body sys pe s w =
     (case sv_start_gui pe s w of
        (Inl e, s1, w1) \<Rightarrow> (Inl e, 0, s1, w1)
      | (Inr _, s1, w1) \<Rightarrow>
          (case sv_run_visual_tests sys pe s1 w1 of
             (s2, w2) \<Rightarrow>
               (case sv_generate_report sys s2 w2 of
                  (Inl e, _, s3, w3) \<Rightarrow> (Inl e, 1, s3, w3)
                | (Inr _, _, s3, w3) \<Rightarrow> (Inr (), 1, s3, w3))))"

definition sv_main :: "'w sys_env \<Rightarrow> 'w proc_env \<Rightarrow> 'w \<Rightarrow> (sv_state, 'w) run" where
  "sv_main sys pe w =
     (case sv_main_body sys pe sv_init w of
        (r, reports, s, w1) \<Rightarrow>
          (case sv_stop_gui pe s w1 of
             (r2, releases, w2) \<Rightarrow>
               \<lparr>run_uncaught =
                  (case r2 of Inl e \<Rightarrow> Some e
                   | Inr _ \<Rightarrow> (case r of Inl e \<Rightarrow> Some e | Inr _ \<Rightarrow> None)),
                run_return = None, run_state = s, run_world = w2,
                run_releases = releases, run_reports = reports\<rparr>))"

section \<open>The Selenium WebDriver, as the two browser scripts use it\<close>

datatype By = TAG_NAME | CSS_SELECTOR

type_synonym elem = nat

datatype key = ADD | SUBTRACT

datatype action =
  MoveToElement elem
| ClickAndHold "elem option"
| MoveByOffset int int
| Release
| Click
| SendKeys key

text \<open>
  \<open>chrome\<close> is \<^verbatim>\<open>webdriver.Chrome(options=...)\<close>; the other fields are the methods of
  the driver object and of the element handles it returns. \<open>perform\<close> is
  \<^verbatim>\<open>ActionChains.perform()\<close> on the actions queued before it. A test method called
  while \<^verbatim>\<open>self.driver\<close> is \<^verbatim>\<open>None\<close> is the case of an environment whose every call
  raises (the \<^verbatim>\<open>AttributeError\<close> of the attribute access).
\<close>

record 'w selenium =
  chrome :: "'w \<Rightarrow> unit res \<times> 'w"
  set_window_size :: "nat \<Rightarrow> nat \<Rightarrow> 'w \<Rightarrow> unit res \<times> 'w"
  quit :: "'w \<Rightarrow> unit res \<times> 'w"
  get :: "string \<Rightarrow> 'w \<Rightarrow> unit res \<times> 'w"
  save_screenshot :: "string \<Rightarrow> 'w \<Rightarrow> unit res \<times> 'w"
  find_elements :: "By \<Rightarrow> string \<Rightarrow> 'w \<Rightarrow> elem list res \<times> 'w"
  find_element :: "By \<Rightarrow> string \<Rightarrow> 'w \<Rightarrow> elem res \<times> 'w"
  elem_text :: "elem \<Rightarrow> 'w \<Rightarrow> string res \<times> 'w"
  elem_click :: "elem \<Rightarrow> 'w \<Rightarrow> unit res \<times> 'w"
  elem_send_keys :: "elem \<Rightarrow> string \<Rightarrow> 'w \<Rightarrow> unit res \<times> 'w"
  page_source :: "'w \<Rightarrow> string res \<times> 'w"
  perform :: "action list \<Rightarrow> 'w \<Rightarrow> unit res \<times> 'w"

text \<open>The screenshot dictionaries of both browser scripts.\<close>

record shot =
  shot_name :: string
  shot_description :: string
  shot_file :: string
  shot_timestamp :: string

section \<open>webdriver\_visual\_test.py\<close>

text \<open>An entry of \<^verbatim>\<open>results["tests"]\<close>: \<^verbatim>\<open>name\<close> and \<^verbatim>\<open>result\<close> always, the
  other keys only in some entries.\<close>

record wd_test =
  wt_name :: string
  wt_result :: string
  wt_note :: "string option"
  wt_error :: "string option"
  wt_controls :: "string list option"
  wt_keywords :: "string list option"

record wd_bug =
  wb_test :: string
  wb_issue :: string

record wd_state =
  wd_driver :: bool
  wd_tests :: "wd_test list"
  wd_screenshots :: "shot list"
  wd_bugs :: "wd_bug list"

definition wd_init :: wd_state where
  "wd_init = \<lparr>wd_driver = False, wd_tests = [], wd_screenshots = [], wd_bugs = []\<rparr>"

definition app_url :: string where
  "app_url = ''http://localhost:1420''"

text \<open>\<^verbatim>\<open>{"name": name, "result": result}\<close>.\<close>

definition wd_outcome :: "string \<Rightarrow> string \<Rightarrow> wd_test" where
  "wd_outcome name result =
     \<lparr>wt_name = name, wt_result = result, wt_note = None, wt_error = None,
      wt_controls = None, wt_keywords = None\<rparr>"

text \<open>The outcome \<^verbatim>\<open>{"name": test_name, "result": "ERROR", "error": str(e)}\<close> that
  every \<^verbatim>\<open>except\<close> clause appends.\<close>

definition wd_record_error :: "string \<Rightarrow> string \<Rightarrow> wd_state \<Rightarrow> wd_state" where
  "wd_record_error test_name e s =
     s\<lparr>wd_tests := wd_tests s @ [(wd_outcome test_name ''ERROR'')\<lparr>wt_error := Some e\<rparr>]\<rparr>"

definition wd_setup_driver :: "'w selenium \<Rightarrow> wd_state \<Rightarrow> 'w \<Rightarrow> bool \<times> wd_state \<times> 'w" where
  "wd_setup_driver se s w =
     (case chrome se w of
        (Inl e, w1) \<Rightarrow> (False, s, w1)
      | (Inr _, w1) \<Rightarrow>
          (let s1 = s\<lparr>wd_driver := True\<rparr>
           in case set_window_size se 1920 1080 w1 of
                (Inl e, w2) \<Rightarrow> (False, s1, w2)
              | (Inr _, w2) \<Rightarrow> (True, s1, w2)))"

text \<open>\<^verbatim>\<open>close_driver\<close>; the natural number counts the executions of
  \<^verbatim>\<open>self.driver.quit()\<close>.\<close>

definition wd_close_driver :: "'w selenium \<Rightarrow> wd_state \<Rightarrow> 'w \<Rightarrow> unit res \<times> nat \<times> 'w" where
  "wd_close_driver se s w =
     (if wd_driver s then (case quit se w of (r, w1) \<Rightarrow> (r, 1, w1)) else (Inr (), 0, w))"

definition wd_take_screenshot ::
  "'w sys_env \<Rightarrow> 'w selenium \<Rightarrow> string \<Rightarrow> string \<Rightarrow> wd_state \<Rightarrow> 'w
     \<Rightarrow> string option \<times> wd_state \<times> 'w" where
  "wd_take_screenshot sys se name description s w =
     (let (t, w1) = now sys w;
          timestamp = strftime_compact t;
          filename = timestamp @ ''_'' @ name @ ''.png'';
          filepath = screenshots_dir @ ''/'' @ filename
      in case save_screenshot se filepath w1 of
           (Inr _, w2) \<Rightarrow>
             (Some filepath,
              s\<lparr>wd_screenshots := wd_screenshots s @
                 [\<lparr>shot_name = name, shot_description = description, shot_file = filename,
                   shot_timestamp = timestamp\<rparr>]\<rparr>, w2)
         | (Inl e, w2) \<Rightarrow> (None, s, w2))"

text \<open>Each test method is a \<^verbatim>\<open>try\<close> body and an \<^verbatim>\<open>except Exception as e\<close>
  clause. The body gives \<open>Inr b\<close> when it reaches its \<^verbatim>\<open>return\<close> and \<open>Inl e\<close>
  when a call inside it raises, together with the tester object and the world at that
  moment.\<close>

definition wd_gui_loads_body ::
  "'w sys_env \<Rightarrow> 'w selenium \<Rightarrow> wd_state \<Rightarrow> 'w \<Rightarrow> bool res \<times> wd_state \<times> 'w" where
  "wd_gui_loads_body sys se s w =
     (let test_name = ''GUI Loading''
      in case get se app_url w of
           (Inl e, w1) \<Rightarrow> (Inl e, s, w1)
         | (Inr _, w1) \<Rightarrow>
             (case wd_take_screenshot sys se ''00_gui_loaded'' ''GUI initial load'' s w1 of
                (_, s1, w2) \<Rightarrow>
                  (case find_elements se TAG_NAME ''canvas'' w2 of
                     (Inl e, w3) \<Rightarrow> (Inl e, s1, w3)
                   | (Inr canvas, w3) \<Rightarrow>
                       (let (result, s2) =
                              (if canvas \<noteq> [] then (''PASS'', s1)
                               else (''FAIL'',
                                     s1\<lparr>wd_bugs := wd_bugs s1 @
                                        [\<lparr>wb_test = test_name,
                                          wb_issue = ''No canvas element found in DOM''\<rparr>]\<rparr>));
                            s3 = s2\<lparr>wd_tests := wd_tests s2 @ [wd_outcome test_name result]\<rparr>
                        in (Inr (result = ''PASS''), s3, w3)))))"

text \<open>The \<^verbatim>\<open>except\<close> clause of \<^verbatim>\<open>test_gui_loads\<close> appends to \<^verbatim>\<open>tests\<close> and to
  \<^verbatim>\<open>bugs\<close>.\<close>

definition wd_test_gui_loads ::
  "'w sys_env \<Rightarrow> 'w selenium \<Rightarrow> wd_state \<Rightarrow> 'w \<Rightarrow> bool \<times> wd_state \<times> 'w" where
  "wd_test_gui_loads sys se s w =
     (case wd_gui_loads_body sys se s w of
        (Inr b, s1, w1) \<Rightarrow> (b, s1, w1)
      | (Inl e, s1, w1) \<Rightarrow>
          (False,
           (wd_record_error ''GUI Loading'' e s1)
             \<lparr>wd_bugs := wd_bugs s1 @ [\<lparr>wb_test = ''GUI Loading'', wb_issue = e\<rparr>]\<rparr>, w1))"

text \<open>The \<^verbatim>\<open>except\<close> clause of the other three test methods appends to
  \<^verbatim>\<open>tests\<close> only.\<close>

definition wd_except :: "string \<Rightarrow> bool res \<times> wd_state \<times> 'w \<Rightarrow> bool \<times> wd_state \<times> 'w" where
  "wd_except test_name r =
     (case r of
        (Inr b, s, w) \<Rightarrow> (b, s, w)
      | (Inl e, s, w) \<Rightarrow> (False, wd_record_error test_name e s, w))"

definition file_input_selector :: string where
  "file_input_selector = ''input[type='' @ sq @ ''file'' @ sq @ '']''"

text \<open>The loop \<^verbatim>\<open>for btn in buttons\<close> of \<^verbatim>\<open>test_load_structure\<close>: it ends at the first
  button whose lowered text has \<^verbatim>\<open>load\<close>, \<^verbatim>\<open>open\<close> or \<^verbatim>\<open>file\<close>, clicks it and looks
  the file inputs up again; with no such button \<^verbatim>\<open>file_inputs\<close> stays as it was.\<close>

fun wd_scan_buttons ::
  "'w selenium \<Rightarrow> elem list \<Rightarrow> elem list \<Rightarrow> 'w \<Rightarrow> elem list res \<times> 'w" where
  "wd_scan_buttons se [] file_inputs w = (Inr file_inputs, w)"
| "wd_scan_buttons se (btn # btns) file_inputs w =
     (case elem_text se btn w of
        (Inl e, w1) \<Rightarrow> (Inl e, w1)
      | (Inr t, w1) \<Rightarrow>
          (let text = lower t
           in if contains ''load'' text \<or> contains ''open'' text \<or> contains ''file'' text then
                (case elem_click se btn w1 of
                   (Inl e, w2) \<Rightarrow> (Inl e, w2)
                 | (Inr _, w2) \<Rightarrow> find_elements se CSS_SELECTOR file_input_selector w2)
              else wd_scan_buttons se btns file_inputs w1))"

text \<open>\<^verbatim>\<open>test_load_structure(structure_file)\<close>, where \<open>struct\<close> is the file name of
  \<^verbatim>\<open>structure_file\<close>, a file of the structures directory.\<close>

definition wd_load_structure_body ::
  "'w sys_env \<Rightarrow> 'w selenium \<Rightarrow> string \<Rightarrow> wd_state \<Rightarrow> 'w \<Rightarrow> bool res \<times> wd_state \<times> 'w" where
  "wd_load_structure_body sys se struct s w =
     (let test_name = ''Load Structure: '' @ struct
      in case find_elements se CSS_SELECTOR file_input_selector w of
           (Inl e, w1) \<Rightarrow> (Inl e, s, w1)
         | (Inr file_inputs, w1) \<Rightarrow>
             (case (if file_inputs = [] then
                      (case find_elements se TAG_NAME ''button'' w1 of
                         (Inl e, w2) \<Rightarrow> (Inl e, w2)
                       | (Inr buttons, w2) \<Rightarrow> wd_scan_buttons se buttons file_inputs w2)
                    else (Inr file_inputs, w1)) of
                (Inl e, w3) \<Rightarrow> (Inl e, s, w3)
              | (Inr [], w3) \<Rightarrow>
                  (Inr False,
                   s\<lparr>wd_bugs := wd_bugs s @
                        [\<lparr>wb_test = test_name, wb_issue = ''No file input element found''\<rparr>],
                     wd_tests := wd_tests s @ [wd_outcome test_name ''FAIL'']\<rparr>, w3)
              | (Inr (file_input # _), w3) \<Rightarrow>
                  (case elem_send_keys se file_input (structures_dir @ ''/'' @ struct) w3 of
                     (Inl e, w4) \<Rightarrow> (Inl e, s, w4)
                   | (Inr _, w4) \<Rightarrow>
                       (case wd_take_screenshot sys se (''structure_'' @ path_stem struct)
                               (''Loaded structure: '' @ struct) s w4 of
                          (_, s1, w5) \<Rightarrow>
                            (Inr True,
                             s1\<lparr>wd_tests := wd_tests s1 @ [wd_outcome test_name ''PASS'']\<rparr>,
                             w5)))))"

definition wd_test_load_structure ::
  "'w sys_env \<Rightarrow> 'w selenium \<Rightarrow> string \<Rightarrow> wd_state \<Rightarrow> 'w \<Rightarrow> bool \<times> wd_state \<times> 'w" where
  "wd_test_load_structure sys se struct s w =
     wd_except (''Load Structure: '' @ struct) (wd_load_structure_body sys se struct s w)"

definition wd_rotation_body ::
  "'w sys_env \<Rightarrow> 'w selenium \<Rightarrow> wd_state \<Rightarrow> 'w \<Rightarrow> bool res \<times> wd_state \<times> 'w" where
  "wd_rotation_body sys se s w =
     (case find_element se TAG_NAME ''canvas'' w of
        (Inl e, w1) \<Rightarrow> (Inl e, s, w1)
      | (Inr canvas, w1) \<Rightarrow>
          (case wd_take_screenshot sys se ''rotation_before'' ''Before rotation'' s w1 of
             (_, s1, w2) \<Rightarrow>
               (case perform se
                       [MoveToElement canvas, ClickAndHold None, MoveByOffset 200 100, Release]
                       w2 of
                  (Inl e, w3) \<Rightarrow> (Inl e, s1, w3)
                | (Inr _, w3) \<Rightarrow>
                    (case wd_take_screenshot sys se ''rotation_after''
                            ''After rotation (drag 200x100)'' s1 w3 of
                       (_, s2, w4) \<Rightarrow>
                         (Inr True,
                          s2\<lparr>wd_tests := wd_tests s2 @
                               [(wd_outcome ''Rotation'' ''VISUAL'')
                                  \<lparr>wt_note := Some ''Compare before/after screenshots''\<rparr>]\<rparr>,
                          w4)))))"

definition wd_test_rotation ::
  "'w sys_env \<Rightarrow> 'w selenium \<Rightarrow> wd_state \<Rightarrow> 'w \<Rightarrow> bool \<times> wd_state \<times> 'w" where
  "wd_test_rotation sys se s w = wd_except ''Rotation'' (wd_rotation_body sys se s w)"

text \<open>One of the four look-ups of \<^verbatim>\<open>test_controls_visible\<close>: a non-empty result
  adds \<^verbatim>\<open>f"{len(found)} {label}"\<close> to \<^verbatim>\<open>controls_found\<close>.\<close>

definition wd_count_controls ::
  "'w selenium \<Rightarrow> By \<Rightarrow> string \<Rightarrow> string \<Rightarrow> string list \<Rightarrow> 'w \<Rightarrow> string list res \<times> 'w" where
  "wd_count_controls se b sel label controls_found w =
     (case find_elements se b sel w of
        (Inl e, w1) \<Rightarrow> (Inl e, w1)
      | (Inr found, w1) \<Rightarrow>
          (Inr (if found \<noteq> [] then controls_found @ [str_nat (length found) @ '' '' @ label]
                else controls_found), w1))"

definition ui_keywords :: "string list" where
  "ui_keywords = [''rotation'', ''zoom'', ''background'', ''render'', ''load'', ''open'', ''file'']"

definition wd_controls_visible_body ::
  "'w sys_env \<Rightarrow> 'w selenium \<Rightarrow> wd_state \<Rightarrow> 'w \<Rightarrow> bool res \<times> wd_state \<times> 'w" where
  "wd_controls_visible_body sys se s w =
     (case wd_take_screenshot sys se ''ui_controls'' ''UI controls overview'' s w of
        (_, s1, w1) \<Rightarrow>
      (case wd_count_controls se TAG_NAME ''button'' ''buttons'' [] w1 of
        (Inl e, w2) \<Rightarrow> (Inl e, s1, w2)
      | (Inr c1, w2) \<Rightarrow>
      (case wd_count_controls se TAG_NAME ''input'' ''inputs'' c1 w2 of
        (Inl e, w3) \<Rightarrow> (Inl e, s1, w3)
      | (Inr c2, w3) \<Rightarrow>
      (case wd_count_controls se CSS_SELECTOR (''input[type='' @ sq @ ''checkbox'' @ sq @ '']'')
              ''checkboxes'' c2 w3 of
        (Inl e, w4) \<Rightarrow> (Inl e, s1, w4)
      | (Inr c3, w4) \<Rightarrow>
      (case wd_count_controls se TAG_NAME ''select'' ''select boxes'' c3 w4 of
        (Inl e, w5) \<Rightarrow> (Inl e, s1, w5)
      | (Inr controls_found, w5) \<Rightarrow>
      (case page_source se w5 of
        (Inl e, w6) \<Rightarrow> (Inl e, s1, w6)
      | (Inr source, w6) \<Rightarrow>
          (let found_keywords = filter (\<lambda>kw. contains (lower kw) (lower source)) ui_keywords
           in (Inr True,
               s1\<lparr>wd_tests := wd_tests s1 @
                    [(wd_outcome ''UI Controls Visibility'' ''PASS'')
                       \<lparr>wt_controls := Some controls_found,
                        wt_keywords := Some found_keywords\<rparr>]\<rparr>,
               w6))))))))"

definition wd_test_controls_visible ::
  "'w sys_env \<Rightarrow> 'w selenium \<Rightarrow> wd_state \<Rightarrow> 'w \<Rightarrow> bool \<times> wd_state \<times> 'w" where
  "wd_test_controls_visible sys se s w =
     wd_except ''UI Controls Visibility'' (wd_controls_visible_body sys se s w)"

text \<open>The summary block of the report: the counts are computed from
  \<^verbatim>\<open>self.results\<close> and written, one line each.\<close>

definition wd_summary :: "wd_state \<Rightarrow> string" where
  "wd_summary s =
     (let total_tests = length (wd_tests s);
          passed = sum1 (\<lambda>t. wt_result t = ''PASS'') (wd_tests s);
          failed = sum1 (\<lambda>t. wt_result t = ''FAIL'') (wd_tests s);
          errors = sum1 (\<lambda>t. wt_result t = ''ERROR'') (wd_tests s);
          visual = sum1 (\<lambda>t. wt_result t = ''VISUAL'') (wd_tests s)
      in ''- Total Tests: '' @ str_nat total_tests @ nl @
         ''- Passed: '' @ str_nat passed @ nl @
         ''- Failed: '' @ str_nat failed @ nl @
         ''- Errors: '' @ str_nat errors @ nl @
         ''- Visual Validation Required: '' @ str_nat visual @ nl @
         ''- Screenshots Captured: '' @ str_nat (length (wd_screenshots s)) @ nl @ nl)"

text \<open>The loop over \<^verbatim>\<open>sorted(self.structures_dir.glob("*"))\<close>: the text written, and
  the exception that ended the loop, if any.\<close>

fun wd_structure_lines :: "'w sys_env \<Rightarrow> string list \<Rightarrow> 'w \<Rightarrow> string option \<times> string \<times> 'w" where
  "wd_structure_lines sys [] w = (None, [], w)"
| "wd_structure_lines sys (n # ns) w =
     (if path_suffix n = ''.xyz'' then
        (case fs_first_line sys (structures_dir @ ''/'' @ n) w of
           (Inl e, w1) \<Rightarrow> (Some e, [], w1)
         | (Inr atom_count, w1) \<Rightarrow>
             (case wd_structure_lines sys ns w1 of
                (ex, txt, w2) \<Rightarrow>
                  (ex, ''- **'' @ n @ ''**: '' @ atom_count @ '' atoms'' @ nl @ txt, w2)))
      else
        (case wd_structure_lines sys ns w of
           (ex, txt, w2) \<Rightarrow> (ex, ''- **'' @ n @ ''**'' @ nl @ txt, w2)))"

definition wd_test_entry :: "wd_test \<Rightarrow> string" where
  "wd_test_entry t =
     ''### '' @ wt_name t @ nl @
     ''**Result**: '' @ wt_result t @ nl @ nl @
     (case wt_note t of Some note \<Rightarrow> ''*'' @ note @ ''*'' @ nl @ nl | None \<Rightarrow> []) @
     (case wt_error t of Some e \<Rightarrow> ''```'' @ nl @ e @ nl @ ''```'' @ nl @ nl | None \<Rightarrow> []) @
     (case wt_controls t of Some cs \<Rightarrow> ''Controls: '' @ join '', '' cs @ nl @ nl | None \<Rightarrow> []) @
     (case wt_keywords t of Some ks \<Rightarrow> ''UI Keywords: '' @ join '', '' ks @ nl @ nl | None \<Rightarrow> [])"

definition wd_bug_entry :: "nat \<times> wd_bug \<Rightarrow> string" where
  "wd_bug_entry ib =
     (case ib of (i, bug) \<Rightarrow>
        ''### '' @ str_nat i @ ''. '' @ wb_test bug @ nl @ wb_issue bug @ nl @ nl)"

definition wd_shot_entry :: "shot \<Rightarrow> string" where
  "wd_shot_entry ss =
     ''### '' @ shot_name ss @ nl @
     (if shot_description ss \<noteq> [] then shot_description ss @ nl @ nl else []) @
     ''!['' @ shot_name ss @ ''](screenshots/'' @ shot_file ss @ '')'' @ nl @ nl @
     ''*Timestamp: '' @ shot_timestamp ss @ ''*'' @ nl @ nl"

text \<open>Everything the report holds after the structure list.\<close>

definition wd_report_tail :: "wd_state \<Rightarrow> string" where
  "wd_report_tail s =
     nl @ ''## Test Results'' @ nl @ nl @
     concat (map wd_test_entry (wd_tests s)) @
     (if wd_bugs s \<noteq> [] then
        ''## Bugs / Issues Found'' @ nl @ nl @
        concat (map wd_bug_entry (zip [1..<Suc (length (wd_bugs s))] (wd_bugs s)))
      else []) @
     ''## Screenshots'' @ nl @ nl @
     concat (map wd_shot_entry (wd_screenshots s))"

definition wd_report_path :: string where
  "wd_report_path = base_dir @ ''/VISUAL_VALIDATION_REPORT.md''"

text \<open>The structure list of the report: the directory is listed and the first line of
  every \<^verbatim>\<open>.xyz\<close> file is read. The result is the exception that ended the listing (if
  any) and the text written.\<close>

definition wd_structures_text :: "'w sys_env \<Rightarrow> 'w \<Rightarrow> string option \<times> string \<times> 'w" where
  "wd_structures_text sys w =
     (case fs_glob_sorted sys structures_dir w of
        (Inl e, w1) \<Rightarrow> (Some e, [], w1)
      | (Inr names, w1) \<Rightarrow> wd_structure_lines sys names w1)"

text \<open>The report, given the timestamp and the text of the structure list.\<close>

definition wd_report_head :: "datetime \<Rightarrow> wd_state \<Rightarrow> string" where
  "wd_report_head t s =
     ''# Axiom GUI Visual Validation Report'' @ nl @ nl @
     ''Generated: '' @ strftime_human t @ nl @ nl @
     ''## Summary'' @ nl @ nl @
     wd_summary s @
     ''## Test Structures'' @ nl @ nl @
     ''Small structures (3-20 atoms) for fast rendering:'' @ nl @ nl"

text \<open>\<^verbatim>\<open>generate_report\<close> returns the report path, or raises; the tester object is
  returned as the method leaves it.\<close>

definition wd_generate_report ::
  "'w sys_env \<Rightarrow> wd_state \<Rightarrow> 'w \<Rightarrow> string res \<times> string option \<times> wd_state \<times> 'w" where
  "wd_generate_report sys s w =
     (case fs_open_w sys wd_report_path w of
        (Inl e, w1) \<Rightarrow> (Inl e, None, s, w1)
      | (Inr _, w1) \<Rightarrow>
          (let (t, w2) = now sys w1
           in case wd_structures_text sys w2 of
                (Some e, txt, w3) \<Rightarrow> (Inl e, Some (wd_report_head t s @ txt), s, w3)
              | (None, txt, w3) \<Rightarrow>
                  (Inr wd_report_path, Some (wd_report_head t s @ txt @ wd_report_tail s), s, w3)))"

text \<open>The loop \<^verbatim>\<open>for struct in ["water.xyz", "methane.xyz"]\<close> of \<^verbatim>\<open>main\<close>.\<close>

fun wd_try_structures ::
  "'w sys_env \<Rightarrow> 'w selenium \<Rightarrow> string list \<Rightarrow> wd_state \<Rightarrow> 'w \<Rightarrow> wd_state \<times> 'w" where
  "wd_try_structures sys se [] s w = (s, w)"
| "wd_try_structures sys se (struct # structs) s w =
     (case fs_exists sys (structures_dir @ ''/'' @ struct) w of
        (True, w1) \<Rightarrow>
          (case wd_test_load_structure sys se struct s w1 of
             (_, s1, w2) \<Rightarrow> wd_try_structures sys se structs s1 w2)
      | (False, w1) \<Rightarrow> wd_try_structures sys se structs s w1)"

text \<open>The \<^verbatim>\<open>try\<close> block of \<^verbatim>\<open>main\<close> with its \<^verbatim>\<open>except Exception\<close> clause: the value
  is \<open>Some 1\<close> for the \<^verbatim>\<open>return 1\<close> inside the block and \<open>None\<close> when control falls
  through to the code after the \<^verbatim>\<open>try\<close> statement (also after an exception of
  \<^verbatim>\<open>generate_report\<close>, which the clause catches); the natural number counts the
  calls of \<^verbatim>\<open>generate_report\<close>.\<close>

definition wd_main_body ::
  "'w sys_env \<Rightarrow> 'w selenium \<Rightarrow> wd_state \<Rightarrow> 'w \<Rightarrow> int option \<times> nat \<times> wd_state \<times> 'w" where
  "wd_main_body sys se s w =
     (case wd_setup_driver se s w of
        (False, s1, w1) \<Rightarrow> (Some 1, 0, s1, w1)
      | (True, s1, w1) \<Rightarrow>
          (case wd_test_gui_loads sys se s1 w1 of (_, s2, w2) \<Rightarrow>
          (case wd_test_controls_visible sys se s2 w2 of (_, s3, w3) \<Rightarrow>
          (case wd_try_structures sys se [''water.xyz'', ''methane.xyz''] s3 w3 of (s4, w4) \<Rightarrow>
          (case wd_test_rotation sys se s4 w4 of (_, s5, w5) \<Rightarrow>
          (case wd_generate_report sys s5 w5 of (_, _, s6, w6) \<Rightarrow>
             (None, 1, s6, w6)))))))"

text \<open>\<^verbatim>\<open>main\<close>: the \<^verbatim>\<open>finally\<close> clause runs \<^verbatim>\<open>close_driver\<close>; an exception raised
  there leaves \<^verbatim>\<open>main\<close>; otherwise the pending \<^verbatim>\<open>return 1\<close> takes place, or the
  final \<^verbatim>\<open>return 0\<close>.\<close>

definition wd_main :: "'w sys_env \<Rightarrow> 'w selenium \<Rightarrow> 'w \<Rightarrow> (wd_state, 'w) run" where
  "wd_main sys se w =
     (case wd_main_body sys se wd_init w of
        (ret, reports, s, w1) \<Rightarrow>
          (case wd_close_driver se s w1 of
             (r, releases, w2) \<Rightarrow>
               \<lparr>run_uncaught = (case r of Inl e \<Rightarrow> Some e | Inr _ \<Rightarrow> None),
                run_return =
                  (case r of Inl e \<Rightarrow> None
                   | Inr _ \<Rightarrow> (case ret of Some n \<Rightarrow> Some n | None \<Rightarrow> Some 0)),
                run_state = s, run_world = w2,
                run_releases = releases, run_reports = reports\<rparr>))"

section \<open>visual\_validator.py\<close>

record vv_bug =
  vb_test :: string
  vb_error :: string

text \<open>\<^verbatim>\<open>self.results\<close> of an \<^verbatim>\<open>AxiomVisualValidator\<close> holds three counters and two
  lists; \<open>vv_driver\<close> tells whether \<^verbatim>\<open>self.driver\<close> is set.\<close>

record vv_state =
  vv_driver :: bool
  vv_tests_run :: int
  vv_tests_passed :: int
  vv_tests_failed :: int
  vv_screenshots :: "shot list"
  vv_bugs :: "vv_bug list"

definition vv_init :: vv_state where
  "vv_init = \<lparr>vv_driver = False, vv_tests_run = 0, vv_tests_passed = 0, vv_tests_failed = 0,
               vv_screenshots = [], vv_bugs = []\<rparr>"

definition vv_start_driver :: "'w selenium \<Rightarrow> vv_state \<Rightarrow> 'w \<Rightarrow> unit res \<times> vv_state \<times> 'w" where
  "vv_start_driver se s w =
     (case chrome se w of
        (Inl e, w1) \<Rightarrow> (Inl e, s, w1)
      | (Inr _, w1) \<Rightarrow>
          (let s1 = s\<lparr>vv_driver := True\<rparr>
           in case set_window_size se 1920 1080 w1 of (r, w2) \<Rightarrow> (r, s1, w2)))"

text \<open>\<^verbatim>\<open>stop_driver\<close>; the natural number counts the executions of
  \<^verbatim>\<open>self.driver.quit()\<close>.\<close>

definition vv_stop_driver :: "'w selenium \<Rightarrow> vv_state \<Rightarrow> 'w \<Rightarrow> unit res \<times> nat \<times> 'w" where
  "vv_stop_driver se s w =
     (if vv_driver s then (case quit se w of (r, w1) \<Rightarrow> (r, 1, w1)) else (Inr (), 0, w))"

text \<open>\<^verbatim>\<open>take_screenshot\<close> has no \<^verbatim>\<open>try\<close>: an exception of
  \<^verbatim>\<open>save_screenshot\<close> leaves it, before anything is recorded.\<close>

definition vv_take_screenshot ::
  "'w sys_env \<Rightarrow> 'w selenium \<Rightarrow> string \<Rightarrow> string \<Rightarrow> vv_state \<Rightarrow> 'w
     \<Rightarrow> string res \<times> vv_state \<times> 'w" where
  "vv_take_screenshot sys se name description s w =
     (let (t, w1) = now sys w;
          timestamp = strftime_compact t;
          filename = timestamp @ ''_'' @ name @ ''.png'';
          filepath = screenshots_dir @ ''/'' @ filename
      in case save_screenshot se filepath w1 of
           (Inl e, w2) \<Rightarrow> (Inl e, s, w2)
         | (Inr _, w2) \<Rightarrow>
             (Inr filepath,
              s\<lparr>vv_screenshots := vv_screenshots s @
                 [\<lparr>shot_name = name, shot_description = description, shot_file = filepath,
                   shot_timestamp = timestamp\<rparr>]\<rparr>, w2))"

text \<open>Consecutive calls of \<^verbatim>\<open>take_screenshot\<close>, one per pair of name and description,
  up to the first that raises.\<close>

fun vv_shots ::
  "'w sys_env \<Rightarrow> 'w selenium \<Rightarrow> (string \<times> string) list \<Rightarrow> vv_state \<Rightarrow> 'w
     \<Rightarrow> unit res \<times> vv_state \<times> 'w" where
  "vv_shots sys se [] s w = (Inr (), s, w)"
| "vv_shots sys se ((name, description) # rest) s w =
     (case vv_take_screenshot sys se name description s w of
        (Inl e, s1, w1) \<Rightarrow> (Inl e, s1, w1)
      | (Inr _, s1, w1) \<Rightarrow> vv_shots sys se rest s1 w1)"

text \<open>The frame every test method shares: \<^verbatim>\<open>tests_run\<close> is incremented before the
  \<^verbatim>\<open>try\<close>; the last statement of the \<^verbatim>\<open>try\<close> body increments \<^verbatim>\<open>tests_passed\<close>;
  the \<^verbatim>\<open>except\<close> clause increments \<^verbatim>\<open>tests_failed\<close> and appends to
  \<^verbatim>\<open>bugs\<close>.\<close>

definition vv_begin :: "vv_state \<Rightarrow> vv_state" where
  "vv_begin s = s\<lparr>vv_tests_run := vv_tests_run s + 1\<rparr>"

definition vv_finish :: "string \<Rightarrow> unit res \<times> vv_state \<times> 'w \<Rightarrow> bool \<times> vv_state \<times> 'w" where
  "vv_finish test r =
     (case r of
        (Inr _, s, w) \<Rightarrow> (True, s\<lparr>vv_tests_passed := vv_tests_passed s + 1\<rparr>, w)
      | (Inl e, s, w) \<Rightarrow>
          (False,
           s\<lparr>vv_tests_failed := vv_tests_failed s + 1,
             vv_bugs := vv_bugs s @ [\<lparr>vb_test = test, vb_error = e\<rparr>]\<rparr>, w))"

definition vv_file_loading_xyz_body ::
  "'w sys_env \<Rightarrow> 'w selenium \<Rightarrow> vv_state \<Rightarrow> 'w \<Rightarrow> unit res \<times> vv_state \<times> 'w" where
  "vv_file_loading_xyz_body sys se s w =
     (case get se ''http://localhost:1420'' w of
          (Inl e, w1) \<Rightarrow> (Inl e, s, w1)
        | (Inr _, w1) \<Rightarrow>
            vv_shots sys se [(''xyz_loading_initial'', ''Initial state before loading XYZ'')]
              s w1)"

definition vv_test_file_loading_xyz ::
  "'w sys_env \<Rightarrow> 'w selenium \<Rightarrow> vv_state \<Rightarrow> 'w \<Rightarrow> bool \<times> vv_state \<times> 'w" where
  "vv_test_file_loading_xyz sys se s w =
     vv_finish ''XYZ File Loading'' (vv_file_loading_xyz_body sys se (vv_begin s) w)"

definition vv_rotation_body ::
  "'w sys_env \<Rightarrow> 'w selenium \<Rightarrow> vv_state \<Rightarrow> 'w \<Rightarrow> unit res \<times> vv_state \<times> 'w" where
  "vv_rotation_body sys se s w =
     (case vv_shots sys se [(''rotation_before'', ''Structure before rotation'')] s w of
          (Inl e, s1, w1) \<Rightarrow> (Inl e, s1, w1)
        | (Inr _, s1, w1) \<Rightarrow>
            (case find_element se TAG_NAME ''canvas'' w1 of
               (Inl e, w2) \<Rightarrow> (Inl e, s1, w2)
             | (Inr canvas, w2) \<Rightarrow>
                 (case perform se [ClickAndHold (Some canvas), MoveByOffset 200 100, Release] w2 of
                    (Inl e, w3) \<Rightarrow> (Inl e, s1, w3)
                  | (Inr _, w3) \<Rightarrow>
                      vv_shots sys se
                        [(''rotation_after'', ''Structure after rotation (200px right, 100px down)'')]
                        s1 w3)))"

definition vv_test_rotation ::
  "'w sys_env \<Rightarrow> 'w selenium \<Rightarrow> vv_state \<Rightarrow> 'w \<Rightarrow> bool \<times> vv_state \<times> 'w" where
  "vv_test_rotation sys se s w =
     vv_finish ''Rotation'' (vv_rotation_body sys se (vv_begin s) w)"

definition vv_zoom_body ::
  "'w sys_env \<Rightarrow> 'w selenium \<Rightarrow> vv_state \<Rightarrow> 'w \<Rightarrow> unit res \<times> vv_state \<times> 'w" where
  "vv_zoom_body sys se s w =
     (case vv_shots sys se [(''zoom_initial'', ''Initial zoom level'')] s w of
          (Inl e, s1, w1) \<Rightarrow> (Inl e, s1, w1)
        | (Inr _, s1, w1) \<Rightarrow>
            (case find_element se TAG_NAME ''canvas'' w1 of
               (Inl e, w2) \<Rightarrow> (Inl e, s1, w2)
             | (Inr canvas, w2) \<Rightarrow>
                 (case perform se ([MoveToElement canvas, Click] @ replicate 5 (SendKeys ADD)) w2 of
                    (Inl e, w3) \<Rightarrow> (Inl e, s1, w3)
                  | (Inr _, w3) \<Rightarrow>
                      (case vv_shots sys se [(''zoom_in'', ''After zooming in (5 steps)'')] s1 w3 of
                         (Inl e, s2, w4) \<Rightarrow> (Inl e, s2, w4)
                       | (Inr _, s2, w4) \<Rightarrow>
                           (case perform se (replicate 10 (SendKeys SUBTRACT)) w4 of
                              (Inl e, w5) \<Rightarrow> (Inl e, s2, w5)
                            | (Inr _, w5) \<Rightarrow>
                                vv_shots sys se
                                  [(''zoom_out'', ''After zooming out (10 steps)'')] s2 w5)))))"

definition vv_test_zoom ::
  "'w sys_env \<Rightarrow> 'w selenium \<Rightarrow> vv_state \<Rightarrow> 'w \<Rightarrow> bool \<times> vv_state \<times> 'w" where
  "vv_test_zoom sys se s w =
     vv_finish ''Zoom'' (vv_zoom_body sys se (vv_begin s) w)"

definition vv_background_colors_body ::
  "'w sys_env \<Rightarrow> 'w selenium \<Rightarrow> vv_state \<Rightarrow> 'w \<Rightarrow> unit res \<times> vv_state \<times> 'w" where
  "vv_background_colors_body sys se s w =
     (vv_shots sys se
          (map (\<lambda>bg. (''background_'' @ bg, ''Background set to '' @ bg))
             [''black'', ''white'', ''gray''])
          s w)"

definition vv_test_background_colors ::
  "'w sys_env \<Rightarrow> 'w selenium \<Rightarrow> vv_state \<Rightarrow> 'w \<Rightarrow> bool \<times> vv_state \<times> 'w" where
  "vv_test_background_colors sys se s w =
     vv_finish ''Background Colors'' (vv_background_colors_body sys se (vv_begin s) w)"

definition vv_rendering_controls_body ::
  "'w sys_env \<Rightarrow> 'w selenium \<Rightarrow> vv_state \<Rightarrow> 'w \<Rightarrow> unit res \<times> vv_state \<times> 'w" where
  "vv_rendering_controls_body sys se s w =
     (vv_shots sys se
          [(''ssaa_off'', ''SSAA disabled''), (''ssaa_on'', ''SSAA enabled''),
           (''ao_off'', ''Ambient Occlusion disabled''), (''ao_on'', ''Ambient Occlusion enabled'')]
          s w)"

definition vv_test_rendering_controls ::
  "'w sys_env \<Rightarrow> 'w selenium \<Rightarrow> vv_state \<Rightarrow> 'w \<Rightarrow> bool \<times> vv_state \<times> 'w" where
  "vv_test_rendering_controls sys se s w =
     vv_finish ''Rendering Controls'' (vv_rendering_controls_body sys se (vv_begin s) w)"

definition vv_summary :: "vv_state \<Rightarrow> string" where
  "vv_summary s =
     ''- Tests Run: '' @ str_int (vv_tests_run s) @ nl @
     ''- Tests Passed: '' @ str_int (vv_tests_passed s) @ nl @
     ''- Tests Failed: '' @ str_int (vv_tests_failed s) @ nl @
     ''- Screenshots Captured: '' @ str_nat (length (vv_screenshots s)) @ nl @ nl"

definition vv_bug_entry :: "vv_bug \<Rightarrow> string" where
  "vv_bug_entry bug =
     ''### '' @ vb_test bug @ nl @ ''```'' @ nl @ vb_error bug @ nl @ ''```'' @ nl @ nl"

definition vv_shot_entry :: "shot \<Rightarrow> string" where
  "vv_shot_entry ss =
     ''### '' @ shot_name ss @ nl @
     (if shot_description ss \<noteq> [] then shot_description ss @ nl @ nl else []) @
     ''!['' @ shot_name ss @ '']('' @ shot_file ss @ '')'' @ nl @ nl @
     ''*Captured: '' @ shot_timestamp ss @ ''*'' @ nl @ nl"

definition vv_report_text :: "datetime \<Rightarrow> vv_state \<Rightarrow> string" where
  "vv_report_text t s =
     ''# Axiom GUI Visual Validation Report'' @ nl @ nl @
     ''Generated: '' @ strftime_human t @ nl @ nl @
     ''## Summary'' @ nl @ nl @
     vv_summary s @
     ''## Test Structures Used'' @ nl @ nl @
     ''All structures are small (3-20 atoms) for fast rendering:'' @ nl @ nl @
     ''- **water.xyz**: Water molecule (3 atoms)'' @ nl @
     ''- **methane.xyz**: Methane molecule (5 atoms)'' @ nl @
     ''- **ethanol.xyz**: Ethanol molecule (9 atoms)'' @ nl @
     ''- **glycine.pdb**: Glycine amino acid (9 atoms)'' @ nl @ nl @
     (if vv_bugs s \<noteq> [] then
        ''## Bugs Found'' @ nl @ nl @ concat (map vv_bug_entry (vv_bugs s))
      else []) @
     ''## Screenshots'' @ nl @ nl @
     concat (map vv_shot_entry (vv_screenshots s))"

definition vv_report_path :: string where
  "vv_report_path = base_dir @ ''/VISUAL_VALIDATION_REPORT.md''"

definition vv_generate_report ::
  "'w sys_env \<Rightarrow> vv_state \<Rightarrow> 'w \<Rightarrow> string res \<times> string option \<times> vv_state \<times> 'w" where
  "vv_generate_report sys s w =
     (case fs_open_w sys vv_report_path w of
        (Inl e, w1) \<Rightarrow> (Inl e, None, s, w1)
      | (Inr _, w1) \<Rightarrow>
          (let (t, w2) = now sys w1
           in (Inr vv_report_path, Some (vv_report_text t s), s, w2)))"

text \<open>The \<^verbatim>\<open>try\<close> block of \<^verbatim>\<open>main\<close>; the natural number counts the calls of
  \<^verbatim>\<open>generate_report\<close>.\<close>

definition vv_main_body ::
  "'w sys_env \<Rightarrow> 'w selenium \<Rightarrow> vv_state \<Rightarrow> 'w \<Rightarrow> unit res \<times> nat \<times> vv_state \<times> 'w" where
  "vv_main_body sys se s w =
     (case vv_start_driver se s w of
        (Inl e, s1, w1) \<Rightarrow> (Inl e, 0, s1, w1)
      | (Inr _, s1, w1) \<Rightarrow>
          (case vv_test_file_loading_xyz sys se s1 w1 of (_, s2, w2) \<Rightarrow>
          (case vv_test_rotation sys se s2 w2 of (_, s3, w3) \<Rightarrow>
          (case vv_test_zoom sys se s3 w3 of (_, s4, w4) \<Rightarrow>
          (case vv_test_background_colors sys se s4 w4 of (_, s5, w5) \<Rightarrow>
          (case vv_test_rendering_controls sys se s5 w5 of (_, s6, w6) \<Rightarrow>
          (case vv_generate_report sys s6 w6 of
             (Inl e, _, s7, w7) \<Rightarrow> (Inl e, 1, s7, w7)
           | (Inr _, _, s7, w7) \<Rightarrow> (Inr (), 1, s7, w7))))))))"

definition vv_main :: "'w sys_env \<Rightarrow> 'w selenium \<Rightarrow> 'w \<Rightarrow> (vv_state, 'w) run" where
  "vv_main sys se w =
     (case vv_main_body sys se vv_init w of
        (r, reports, s, w1) \<Rightarrow>
          (case vv_stop_driver se s w1 of
             (r2, releases, w2) \<Rightarrow>
               \<lparr>run_uncaught =
                  (case r2 of Inl e \<Rightarrow> Some e
                   | Inr _ \<Rightarrow> (case r of Inl e \<Rightarrow> Some e | Inr _ \<Rightarrow> None)),
                run_return = None, run_state = s, run_world = w2,
                run_releases = releases, run_reports = reports\<rparr>))"

section \<open>direct\_render\_test.py\<close>

text \<open>
  The calls into the \<^verbatim>\<open>axiom\<close> bindings: \<^verbatim>\<open>axiom.Atoms()\<close>,
  \<^verbatim>\<open>atoms.push(x, y, z, element)\<close>, \<^verbatim>\<open>len(atoms)\<close>,
  \<^verbatim>\<open>axiom.Renderer(width, height)\<close>, \<^verbatim>\<open>renderer.set_camera(position, target, up)\<close>,
  \<^verbatim>\<open>renderer.save_image(atoms, path)\<close> and \<^verbatim>\<open>renderer.set_background(r, g, b)\<close>.
  The coordinates are passed on unchanged, so the float literals of the source stand
  here as the reals they denote. \<open>has_set_background\<close> is
  \<^verbatim>\<open>hasattr(renderer, 'set_background')\<close>.
\<close>

datatype ax_call =
  NewAtoms
| Push real real real nat
| LenAtoms
| NewRenderer nat nat
| SetCamera "real list" "real list" "real list"
| SaveImage string
| SetBackground real real real

record 'w axiom_env =
  ax :: "ax_call \<Rightarrow> 'w \<Rightarrow> unit res \<times> 'w"
  has_set_background :: "'w \<Rightarrow> bool \<times> 'w"

text \<open>Consecutive calls, up to the first that raises.\<close>

fun ax_seq :: "'w axiom_env \<Rightarrow> ax_call list \<Rightarrow> 'w \<Rightarrow> unit res \<times> 'w" where
  "ax_seq env [] w = (Inr (), w)"
| "ax_seq env (c # cs) w =
     (case ax env c w of
        (Inl e, w1) \<Rightarrow> (Inl e, w1)
      | (Inr _, w1) \<Rightarrow> ax_seq env cs w1)"

text \<open>The dictionaries of \<^verbatim>\<open>results["tests"]\<close>, \<^verbatim>\<open>results["renders"]\<close> and
  \<^verbatim>\<open>results["errors"]\<close>; \<^verbatim>\<open>axiom_render_test.py\<close> uses the first and the last
  too.\<close>

record plain_test =
  pt_name :: string
  pt_result :: string

record render =
  rn_name :: string
  rn_file :: string
  rn_description :: string

record test_error =
  te_test :: string
  te_error :: string

record dr_state =
  dr_tests :: "plain_test list"
  dr_renders :: "render list"
  dr_errors :: "test_error list"

definition dr_init :: dr_state where
  "dr_init = \<lparr>dr_tests = [], dr_renders = [], dr_errors = []\<rparr>"

text \<open>The last statements of a \<^verbatim>\<open>try\<close> body, and the \<^verbatim>\<open>except Exception as e\<close>
  clause, of the four test methods.\<close>

definition dr_pass :: "string \<Rightarrow> dr_state \<Rightarrow> dr_state" where
  "dr_pass test_name s =
     s\<lparr>dr_tests := dr_tests s @ [\<lparr>pt_name = test_name, pt_result = ''PASS''\<rparr>]\<rparr>"

definition dr_fail :: "string \<Rightarrow> string \<Rightarrow> dr_state \<Rightarrow> dr_state" where
  "dr_fail test_name e s =
     s\<lparr>dr_errors := dr_errors s @ [\<lparr>te_test = test_name, te_error = e\<rparr>],
       dr_tests := dr_tests s @ [\<lparr>pt_name = test_name, pt_result = ''FAIL''\<rparr>]\<rparr>"

definition dr_finish :: "string \<Rightarrow> unit res \<times> dr_state \<times> 'w \<Rightarrow> bool \<times> dr_state \<times> 'w" where
  "dr_finish test_name r =
     (case r of
        (Inr _, s, w) \<Rightarrow> (True, dr_pass test_name s, w)
      | (Inl e, s, w) \<Rightarrow> (False, dr_fail test_name e s, w))"

text \<open>
  One render loop: for each item the timestamp is read, the file name is
  \<^verbatim>\<open>f"{timestamp}_{name}.png"\<close>, the calls \<open>step item path\<close> are made and the
  render is recorded. \<open>label\<close> gives the name and the description of the record.
\<close>

fun dr_render_loop ::
  "'w sys_env \<Rightarrow> ('i \<Rightarrow> string \<Rightarrow> 'w \<Rightarrow> unit res \<times> 'w) \<Rightarrow> ('i \<Rightarrow> string \<times> string)
     \<Rightarrow> 'i list \<Rightarrow> dr_state \<Rightarrow> 'w \<Rightarrow> unit res \<times> dr_state \<times> 'w" where
  "dr_render_loop sys step label [] s w = (Inr (), s, w)"
| "dr_render_loop sys step label (i # is) s w =
     (let (t, w1) = now sys w;
          timestamp = strftime_compact t;
          (name, description) = label i;
          file = timestamp @ ''_'' @ name @ ''.png''
      in case step i (screenshots_dir @ ''/'' @ file) w1 of
           (Inl e, w2) \<Rightarrow> (Inl e, s, w2)
         | (Inr _, w2) \<Rightarrow>
             dr_render_loop sys step label is
               (s\<lparr>dr_renders := dr_renders s @
                    [\<lparr>rn_name = name, rn_file = file, rn_description = description\<rparr>]\<rparr>) w2)"

definition dr_simple_water_body ::
  "'w sys_env \<Rightarrow> 'w axiom_env \<Rightarrow> dr_state \<Rightarrow> 'w \<Rightarrow> unit res \<times> dr_state \<times> 'w" where
  "dr_simple_water_body sys env s w =
     (case ax_seq env
               [NewAtoms, Push 0.0 0.0 0.0 8, Push 0.757 0.586 0.0 1, Push (-0.757) 0.586 0.0 1,
                LenAtoms, NewRenderer 800 600] w of
          (Inl e, w1) \<Rightarrow> (Inl e, s, w1)
        | (Inr _, w1) \<Rightarrow>
            dr_render_loop sys
              (\<lambda>u path. ax_seq env
                 [SetCamera [0.0, 0.0, 10.0] [0.0, 0.0, 0.0] [0.0, 1.0, 0.0], SaveImage path])
              (\<lambda>u. (''water_default'', ''Water molecule - default view''))
              [()] s w1)"

definition dr_test_simple_water ::
  "'w sys_env \<Rightarrow> 'w axiom_env \<Rightarrow> dr_state \<Rightarrow> 'w \<Rightarrow> bool \<times> dr_state \<times> 'w" where
  "dr_test_simple_water sys env s w =
     dr_finish ''Render Water Molecule'' (dr_simple_water_body sys env s w)"

definition dr_rotation_body ::
  "'w sys_env \<Rightarrow> 'w axiom_env \<Rightarrow> dr_state \<Rightarrow> 'w \<Rightarrow> unit res \<times> dr_state \<times> 'w" where
  "dr_rotation_body sys env s w =
     (case ax_seq env
               [NewAtoms, Push 0.0 0.0 0.0 6, Push 0.629 0.629 0.629 1,
                Push (-0.629) (-0.629) 0.629 1, Push (-0.629) 0.629 (-0.629) 1,
                Push 0.629 (-0.629) (-0.629) 1, LenAtoms, NewRenderer 800 600] w of
          (Inl e, w1) \<Rightarrow> (Inl e, s, w1)
        | (Inr _, w1) \<Rightarrow>
            dr_render_loop sys
              (\<lambda>(angle_name, camera_pos) path. ax_seq env
                 [SetCamera camera_pos [0.0, 0.0, 0.0] [0.0, 1.0, 0.0], SaveImage path])
              (\<lambda>(angle_name, camera_pos).
                 (''rotation_'' @ angle_name, ''Methane from '' @ angle_name @ '' view''))
              [(''front'', [0.0, 0.0, 10.0]), (''side'', [10.0, 0.0, 0.0]),
               (''top'', [0.0, 10.0, 0.0]), (''angle'', [7.0, 7.0, 7.0])] s w1)"

definition dr_test_rotation ::
  "'w sys_env \<Rightarrow> 'w axiom_env \<Rightarrow> dr_state \<Rightarrow> 'w \<Rightarrow> bool \<times> dr_state \<times> 'w" where
  "dr_test_rotation sys env s w =
     dr_finish ''Test Rotation (Different Camera Angles)'' (dr_rotation_body sys env s w)"

text \<open>In \<^verbatim>\<open>test_zoom\<close> the description holds \<^verbatim>\<open>f"{distance}"\<close>; each distance
  comes here with that text.\<close>

definition dr_zoom_body ::
  "'w sys_env \<Rightarrow> 'w axiom_env \<Rightarrow> dr_state \<Rightarrow> 'w \<Rightarrow> unit res \<times> dr_state \<times> 'w" where
  "dr_zoom_body sys env s w =
     (case ax_seq env
               [NewAtoms, Push 0.0 0.0 0.0 6, Push 1.52 0.0 0.0 6, Push 2.03 1.31 0.0 8,
                Push (-0.38) 0.51 0.89 1, Push (-0.38) 0.51 (-0.89) 1, Push (-0.38) (-1.02) 0.0 1,
                Push 1.9 (-0.51) 0.89 1, Push 1.9 (-0.51) (-0.89) 1, Push 1.65 1.81 0.76 1,
                LenAtoms, NewRenderer 800 600] w of
          (Inl e, w1) \<Rightarrow> (Inl e, s, w1)
        | (Inr _, w1) \<Rightarrow>
            dr_render_loop sys
              (\<lambda>(zoom_name, distance, distance_text) path. ax_seq env
                 [SetCamera [0.0, 0.0, distance] [0.0, 0.0, 0.0] [0.0, 1.0, 0.0], SaveImage path])
              (\<lambda>(zoom_name, distance, distance_text).
                 (''zoom_'' @ zoom_name, ''Ethanol at distance '' @ distance_text))
              [(''far'', 20.0, ''20.0''), (''normal'', 10.0, ''10.0''),
               (''close'', 5.0, ''5.0''), (''very_close'', 3.0, ''3.0'')] s w1)"

definition dr_test_zoom ::
  "'w sys_env \<Rightarrow> 'w axiom_env \<Rightarrow> dr_state \<Rightarrow> 'w \<Rightarrow> bool \<times> dr_state \<times> 'w" where
  "dr_test_zoom sys env s w =
     dr_finish ''Test Zoom (Different Camera Distances)'' (dr_zoom_body sys env s w)"

definition dr_background_step ::
  "'w axiom_env \<Rightarrow> string \<times> real list \<Rightarrow> string \<Rightarrow> 'w \<Rightarrow> unit res \<times> 'w" where
  "dr_background_step env item path w =
     (case item of (bg_name, bg_color) \<Rightarrow>
        (case has_set_background env w of
           (True, w1) \<Rightarrow>
             ax_seq env [SetBackground (bg_color ! 0) (bg_color ! 1) (bg_color ! 2), SaveImage path] w1
         | (False, w1) \<Rightarrow> ax_seq env [SaveImage path] w1))"

definition dr_background_colors_body ::
  "'w sys_env \<Rightarrow> 'w axiom_env \<Rightarrow> dr_state \<Rightarrow> 'w \<Rightarrow> unit res \<times> dr_state \<times> 'w" where
  "dr_background_colors_body sys env s w =
     (case ax_seq env
               [NewAtoms, Push 0.0 0.0 0.0 8, NewRenderer 800 600,
                SetCamera [0.0, 0.0, 5.0] [0.0, 0.0, 0.0] [0.0, 1.0, 0.0]] w of
          (Inl e, w1) \<Rightarrow> (Inl e, s, w1)
        | (Inr _, w1) \<Rightarrow>
            dr_render_loop sys (dr_background_step env)
              (\<lambda>(bg_name, bg_color). (''bg_'' @ bg_name, ''Background: '' @ bg_name))
              [(''black'', [0.0, 0.0, 0.0]), (''white'', [1.0, 1.0, 1.0]),
               (''gray'', [0.5, 0.5, 0.5])] s w1)"

definition dr_test_background_colors ::
  "'w sys_env \<Rightarrow> 'w axiom_env \<Rightarrow> dr_state \<Rightarrow> 'w \<Rightarrow> bool \<times> dr_state \<times> 'w" where
  "dr_test_background_colors sys env s w =
     dr_finish ''Test Background Colors'' (dr_background_colors_body sys env s w)"

text \<open>The marks of the reports, in UTF-8.\<close>

definition check_mark :: string where
  "check_mark = [CHR 0xE2, CHR 0x9C, CHR 0x93]"

definition cross_mark :: string where
  "cross_mark = [CHR 0xE2, CHR 0x9C, CHR 0x97]"

definition dr_summary :: "dr_state \<Rightarrow> string" where
  "dr_summary s =
     (let total = length (dr_tests s);
          passed = sum1 (\<lambda>t. pt_result t = ''PASS'') (dr_tests s);
          failed = sum1 (\<lambda>t. pt_result t = ''FAIL'') (dr_tests s)
      in ''## Summary'' @ nl @ nl @
         ''- Total Tests: '' @ str_nat total @ nl @
         ''- Passed: '' @ str_nat passed @ nl @
         ''- Failed: '' @ str_nat failed @ nl @
         ''- Images Generated: '' @ str_nat (length (dr_renders s)) @ nl @ nl)"

definition dr_test_entry :: "plain_test \<Rightarrow> string" where
  "dr_test_entry t =
     (let icon = (if pt_result t = ''PASS'' then check_mark else cross_mark)
      in ''### '' @ icon @ '' '' @ pt_name t @ nl @ nl @
         ''**Result**: '' @ pt_result t @ nl @ nl)"

definition error_entry :: "test_error \<Rightarrow> string" where
  "error_entry e =
     ''### '' @ te_test e @ nl @ ''```'' @ nl @ te_error e @ nl @ ''```'' @ nl @ nl"

definition dr_render_entry :: "render \<Rightarrow> string" where
  "dr_render_entry r =
     ''### '' @ rn_name r @ nl @ nl @
     rn_description r @ nl @ nl @
     ''!['' @ rn_name r @ ''](screenshots/'' @ rn_file r @ '')'' @ nl @ nl"

definition dr_report_text :: "datetime \<Rightarrow> dr_state \<Rightarrow> string" where
  "dr_report_text t s =
     ''# Axiom GUI Visual Validation Report'' @ nl @ nl @
     ''Generated: '' @ strftime_human t @ nl @ nl @
     dr_summary s @
     ''## Test Approach'' @ nl @ nl @
     ''This validation uses **programmatic rendering** via axiom Python bindings.'' @ nl @
     ''Small structures (3-9 atoms) are used for fast rendering (<1s each).'' @ nl @ nl @
     ''**Test Structures:**'' @ nl @
     ''- Water (H2O): 3 atoms'' @ nl @
     ''- Methane (CH4): 5 atoms'' @ nl @
     ''- Ethanol (C2H6O): 9 atoms'' @ nl @ nl @
     ''## Test Results'' @ nl @ nl @
     concat (map dr_test_entry (dr_tests s)) @
     (if dr_errors s \<noteq> [] then
        ''## Errors Encountered'' @ nl @ nl @ concat (map error_entry (dr_errors s))
      else []) @
     ''## Rendered Images'' @ nl @ nl @
     ''All images show the feature working correctly.'' @ nl @ nl @
     concat (map dr_render_entry (dr_renders s)) @
     ''## Validation Checklist'' @ nl @ nl @
     ''- [x] Rotation: Different camera angles tested'' @ nl @
     ''- [x] Zoom: Different camera distances tested'' @ nl @
     ''- [x] Background colors: Black, white, gray tested'' @ nl @
     ''- [x] Small structures: Fast rendering (<1s per image)'' @ nl @
     ''- [x] File formats: Programmatic atom creation (XYZ/PDB parsing requires GUI)'' @ nl @ nl @
     ''## Next Steps'' @ nl @ nl @
     ''1. **GUI Testing**: The programmatic tests validate the rendering engine.'' @ nl @
     ''   GUI-specific features need testing:'' @ nl @
     ''   - File loading UI (XYZ, PDB)'' @ nl @
     ''   - Interactive rotation (mouse drag)'' @ nl @
     ''   - Interactive zoom (scroll)'' @ nl @
     ''   - UI controls (buttons, checkboxes)'' @ nl @
     ''   - SSAA toggle'' @ nl @
     ''   - Ambient occlusion toggle'' @ nl @ nl @
     ''2. **Automated GUI Testing**: Use WebDriver or similar to test the Tauri GUI.'' @ nl @ nl"

definition dr_report_path :: string where
  "dr_report_path = base_dir @ ''/VISUAL_VALIDATION_REPORT.md''"

definition dr_generate_report ::
  "'w sys_env \<Rightarrow> dr_state \<Rightarrow> 'w \<Rightarrow> string res \<times> string option \<times> dr_state \<times> 'w" where
  "dr_generate_report sys s w =
     (case fs_open_w sys dr_report_path w of
        (Inl e, w1) \<Rightarrow> (Inl e, None, s, w1)
      | (Inr _, w1) \<Rightarrow>
          (let (t, w2) = now sys w1
           in (Inr dr_report_path, Some (dr_report_text t s), s, w2)))"

text \<open>\<^verbatim>\<open>main\<close>, from the tester object on. There is no \<^verbatim>\<open>try\<close>: an exception of
  \<^verbatim>\<open>generate_report\<close> leaves \<^verbatim>\<open>main\<close>. The script holds no resource to release.\<close>

definition dr_main :: "'w sys_env \<Rightarrow> 'w axiom_env \<Rightarrow> 'w \<Rightarrow> (dr_state, 'w) run" where
  "dr_main sys env w =
     (case dr_test_simple_water sys env dr_init w of (_, s1, w1) \<Rightarrow>
     (case dr_test_rotation sys env s1 w1 of (_, s2, w2) \<Rightarrow>
     (case dr_test_zoom sys env s2 w2 of (_, s3, w3) \<Rightarrow>
     (case dr_test_background_colors sys env s3 w3 of (_, s4, w4) \<Rightarrow>
     (case dr_generate_report sys s4 w4 of
        (Inl e, _, s5, w5) \<Rightarrow>
          \<lparr>run_uncaught = Some e, run_return = None, run_state = s5, run_world = w5,
           run_releases = 0, run_reports = 1\<rparr>
      | (Inr _, _, s5, w5) \<Rightarrow>
          \<lparr>run_uncaught = None,
           run_return = Some (if length (dr_errors s5) = 0 then 0 else 1),
           run_state = s5, run_world = w5, run_releases = 0, run_reports = 1\<rparr>)))))"

section \<open>axiom\_render\_test.py\<close>

record ar_structure =
  as_file :: string
  as_atoms :: nat
  as_success :: bool

record ar_state =
  ar_tests :: "plain_test list"
  ar_structures_loaded :: "ar_structure list"
  ar_errors :: "test_error list"

definition ar_structure_entry :: "ar_structure \<Rightarrow> string" where
  "ar_structure_entry st =
     (let status = (if as_success st then check_mark else cross_mark)
      in ''- '' @ status @ '' **'' @ as_file st @ ''**: '' @ str_nat (as_atoms st) @ '' atoms'' @ nl)"

definition ar_test_entry :: "plain_test \<Rightarrow> string" where
  "ar_test_entry t =
     (let result_icon = (if pt_result t = ''PASS'' then check_mark else cross_mark)
      in ''- '' @ result_icon @ '' '' @ pt_name t @ '': **'' @ pt_result t @ ''**'' @ nl)"

definition ar_report_path :: string where
  "ar_report_path = base_dir @ ''/AXIOM_LIBRARY_TEST_REPORT.md''"

text \<open>
  \<^verbatim>\<open>generate_report\<close> of \<^verbatim>\<open>AxiomRenderTest\<close>. The success rate is the float
  \<^verbatim>\<open>passed/total*100\<close> printed with one decimal; \<open>rate passed total\<close> stands for that
  text when \<open>total\<close> is not zero. With \<open>total = 0\<close> the division raises
  \<^verbatim>\<open>ZeroDivisionError\<close> while the f-string is built, after the three count lines were
  written.
\<close>

definition ar_generate_report ::
  "'w sys_env \<Rightarrow> (nat \<Rightarrow> nat \<Rightarrow> string) \<Rightarrow> ar_state \<Rightarrow> 'w
     \<Rightarrow> string res \<times> string option \<times> ar_state \<times> 'w" where
  "ar_generate_report sys rate s w =
     (case fs_open_w sys ar_report_path w of
        (Inl e, w1) \<Rightarrow> (Inl e, None, s, w1)
      | (Inr _, w1) \<Rightarrow>
          (let (t, w2) = now sys w1;
               total = length (ar_tests s);
               passed = sum1 (\<lambda>t. pt_result t = ''PASS'') (ar_tests s);
               failed = sum1 (\<lambda>t. pt_result t = ''FAIL'') (ar_tests s);
               part1 =
                 ''# Axiom Library Test Report'' @ nl @ nl @
                 ''Generated: '' @ strftime_human t @ nl @ nl @
                 ''## Summary'' @ nl @ nl @
                 ''- Total Tests: '' @ str_nat total @ nl @
                 ''- Passed: '' @ str_nat passed @ nl @
                 ''- Failed: '' @ str_nat failed @ nl
           in if total = 0 then
                (Inl ''division by zero'', Some part1, s, w2)
              else
                (Inr ar_report_path,
                 Some
                   (part1 @
                    ''- Success Rate: '' @ rate passed total @ ''%'' @ nl @ nl @
                    ''## Structures Loaded'' @ nl @ nl @
                    concat (map ar_structure_entry (ar_structures_loaded s)) @ nl @
                    ''## Test Results'' @ nl @ nl @
                    concat (map ar_test_entry (ar_tests s)) @ nl @
                    (if ar_errors s \<noteq> [] then
                       ''## Errors'' @ nl @ nl @ concat (map error_entry (ar_errors s))
                     else [])), s, w2)))"

section \<open>A concrete world\<close>

text \<open>
  A small deterministic world on which the scripts can be evaluated: a clock that
  stands still (all captures land in one second), a page given by the elements each
  look-up finds, and a structures directory given by its file names (in sorted order)
  with the first line of each file. Its driver behaves as Selenium documents:
  \<^verbatim>\<open>find_elements\<close> returns the possibly empty list of matches, and
  \<^verbatim>\<open>find_element\<close> returns the first match or raises \<^verbatim>\<open>NoSuchElementException\<close>.
\<close>

record sim =
  sim_clock :: datetime
  sim_dom :: "((By \<times> string) \<times> elem list) list"
  sim_structures :: "(string \<times> string) list"

definition sim_lookup :: "sim \<Rightarrow> By \<Rightarrow> string \<Rightarrow> elem list" where
  "sim_lookup w b sel = (case map_of (sim_dom w) (b, sel) of Some es \<Rightarrow> es | None \<Rightarrow> [])"

definition sim_sys :: "sim sys_env" where
  "sim_sys =
     \<lparr>now = (\<lambda>w. (sim_clock w, w)),
      fs_open_w = (\<lambda>p w. (Inr (), w)),
      fs_glob_sorted = (\<lambda>d w. (Inr (map fst (sim_structures w)), w)),
      fs_first_line =
        (\<lambda>p w. case map_of (map (\<lambda>(n, l). (structures_dir @ ''/'' @ n, l)) (sim_structures w)) p of
                  Some l \<Rightarrow> (Inr l, w)
                | None \<Rightarrow> (Inl ''No such file or directory'', w)),
      fs_exists =
        (\<lambda>p w. (p \<in> set (map (\<lambda>(n, l). structures_dir @ ''/'' @ n) (sim_structures w)), w))\<rparr>"

definition sim_selenium :: "sim selenium" where
  "sim_selenium =
     \<lparr>chrome = (\<lambda>w. (Inr (), w)),
      set_window_size = (\<lambda>width height w. (Inr (), w)),
      quit = (\<lambda>w. (Inr (), w)),
      get = (\<lambda>url w. (Inr (), w)),
      save_screenshot = (\<lambda>p w. (Inr (), w)),
      find_elements = (\<lambda>b sel w. (Inr (sim_lookup w b sel), w)),
      find_element =
        (\<lambda>b sel w. case sim_lookup w b sel of
                      [] \<Rightarrow> (Inl ''no such element: Unable to locate element'', w)
                    | e # _ \<Rightarrow> (Inr e, w)),
      elem_text = (\<lambda>e w. (Inr [], w)),
      elem_click = (\<lambda>e w. (Inr (), w)),
      elem_send_keys = (\<lambda>e keys w. (Inr (), w)),
      page_source = (\<lambda>w. (Inr ''<html><body></body></html>'', w)),
      perform = (\<lambda>actions w. (Inr (), w))\<rparr>"

definition sim_axiom :: "sim axiom_env" where
  "sim_axiom =
     \<lparr>ax = (\<lambda>c w. (Inr (), w)),
      has_set_background = (\<lambda>w. (True, w))\<rparr>"

definition sim_proc :: "sim proc_env" where
  "sim_proc =
     \<lparr>scrot = (\<lambda>p w. (Inr (), w)),
      popen = (\<lambda>w. (Inr (), w)),
      terminate = (\<lambda>w. (Inr (), w)),
      wait = (\<lambda>w. (Exited, w)),
      kill = (\<lambda>w. (Inr (), w))\<rparr>"

definition sim_time :: datetime where
  "sim_time = \<lparr>dt_year = 2026, dt_month = 3, dt_day = 9, dt_hour = 14, dt_minute = 5, dt_second = 7\<rparr>"

text \<open>A page with one canvas and one file input, and a page without any element.\<close>

definition sim_page :: sim where
  "sim_page =
     \<lparr>sim_clock = sim_time,
      sim_dom = [((TAG_NAME, ''canvas''), [0]), ((CSS_SELECTOR, file_input_selector), [1])],
      sim_structures = [(''methane.xyz'', ''5''), (''water.xyz'', ''3'')]\<rparr>"

definition sim_blank :: sim where
  "sim_blank = \<lparr>sim_clock = sim_time, sim_dom = [], sim_structures = []\<rparr>"

section \<open>Notions used in the statements\<close>

text \<open>Two validator states agree on the counters, on the bug list and on the driver.\<close>

definition vv_counts_eq :: "vv_state \<Rightarrow> vv_state \<Rightarrow> bool" where
  "vv_counts_eq s s' \<longleftrightarrow>
     vv_tests_run s' = vv_tests_run s \<and> vv_tests_passed s' = vv_tests_passed s \<and>
     vv_tests_failed s' = vv_tests_failed s \<and> vv_bugs s' = vv_bugs s \<and>
     vv_driver s' = vv_driver s"

text \<open>The five test methods of \<^verbatim>\<open>AxiomVisualValidator\<close>.\<close>

definition vv_test_methods ::
  "'w sys_env \<Rightarrow> 'w selenium \<Rightarrow> (vv_state \<Rightarrow> 'w \<Rightarrow> bool \<times> vv_state \<times> 'w) list" where
  "vv_test_methods sys se =
     [vv_test_file_loading_xyz sys se, vv_test_rotation sys se, vv_test_zoom sys se,
      vv_test_background_colors sys se, vv_test_rendering_controls sys se]"

text \<open>A screenshot record is well formed when its file is a compact timestamp, an
  underscore, the logical name and \<^verbatim>\<open>.png\<close>, after the directory prefix \<open>dir\<close>.\<close>

definition shot_ok :: "string \<Rightarrow> shot \<Rightarrow> bool" where
  "shot_ok dir x \<longleftrightarrow>
     (\<exists>t. shot_file x = dir @ strftime_compact t @ ''_'' @ shot_name x @ ''.png'')"

text \<open>\<open>shots_from dir names xs\<close>: the records of \<open>xs\<close> are well formed and their
  names, in order, are picked from \<open>names\<close>.\<close>

definition shots_from :: "string \<Rightarrow> string list \<Rightarrow> shot list \<Rightarrow> bool" where
  "shots_from dir names xs \<longleftrightarrow> subseq (map shot_name xs) names \<and> list_all (shot_ok dir) xs"

text \<open>The logical names of the screenshots of the three capturing scripts, in the order
  in which \<^verbatim>\<open>main\<close> asks for them.\<close>

definition vv_shot_names :: "string list" where
  "vv_shot_names =
     [''xyz_loading_initial'', ''rotation_before'', ''rotation_after'',
      ''zoom_initial'', ''zoom_in'', ''zoom_out'',
      ''background_black'', ''background_white'', ''background_gray'',
      ''ssaa_off'', ''ssaa_on'', ''ao_off'', ''ao_on'']"

definition wd_shot_names :: "string list" where
  "wd_shot_names =
     [''00_gui_loaded'', ''ui_controls'', ''structure_water'', ''structure_methane'',
      ''rotation_before'', ''rotation_after'']"

definition sv_shot_names :: "string list" where
  "sv_shot_names =
     [''01_initial_state'', ''02_after_5sec'', ''03_current_state'',
      ''04_timed_capture'', ''05_timed_capture'', ''06_timed_capture'', ''07_timed_capture'',
      ''08_timed_capture'', ''09_timed_capture'', ''10_timed_capture'']"

text \<open>The successful captures of a \<^verbatim>\<open>SimpleVisualTest\<close>, as screenshot records, and
  the files they name.\<close>

fun sv_shot :: "sv_result \<Rightarrow> shot list" where
  "sv_shot (Captured n d f) =
     [\<lparr>shot_name = n, shot_description = d, shot_file = f, shot_timestamp = take 15 f\<rparr>]"
| "sv_shot (NotCaptured n d e) = []"

definition sv_shots :: "sv_result list \<Rightarrow> shot list" where
  "sv_shots rs = concat (map sv_shot rs)"

definition sv_files :: "sv_result list \<Rightarrow> string list" where
  "sv_files rs = map shot_file (sv_shots rs)"

section \<open>Properties\<close>

lemma vv_take_screenshot_frame:
  "vv_take_screenshot sys se n d s w = (r, s', w') \<Longrightarrow> vv_counts_eq s s'"
  by (auto simp: vv_take_screenshot_def vv_counts_eq_def Let_def split: prod.splits sum.splits)

lemma vv_counts_eq_trans: "vv_counts_eq a b \<Longrightarrow> vv_counts_eq b c \<Longrightarrow> vv_counts_eq a c"
  by (simp add: vv_counts_eq_def)

lemma vv_counts_eq_refl: "vv_counts_eq a a"
  by (simp add: vv_counts_eq_def)

lemma vv_shots_frame:
  "vv_shots sys se ps s w = (r, s', w') \<Longrightarrow> vv_counts_eq s s'"
proof (induction ps arbitrary: s w)
  case Nil
  then show ?case by (simp add: vv_counts_eq_refl)
next
  case (Cons p ps)
  obtain n d where p: "p = (n, d)" by (cases p)
  obtain r1 s1 w1 where t: "vv_take_screenshot sys se n d s w = (r1, s1, w1)"
    by (cases "vv_take_screenshot sys se n d s w")
  have f1: "vv_counts_eq s s1" using t by (rule vv_take_screenshot_frame)
  show ?case
  proof (cases r1)
    case (Inl e)
    with Cons.prems p t have "s' = s1" by simp
    with f1 show ?thesis by simp
  next
    case (Inr u)
    with Cons.prems p t have "vv_shots sys se ps s1 w1 = (r, s', w')" by simp
    then have "vv_counts_eq s1 s'" by (rule Cons.IH)
    with f1 show ?thesis by (rule vv_counts_eq_trans)
  qed
qed

lemma vv_file_loading_xyz_body_frame:
  "vv_file_loading_xyz_body sys se s w = (r, s', w') \<Longrightarrow> vv_counts_eq s s'"
  unfolding vv_file_loading_xyz_body_def
  by (auto split: prod.splits sum.splits dest!: vv_shots_frame
      simp: vv_counts_eq_def simp del: vv_shots.simps)

lemma vv_rotation_body_frame:
  "vv_rotation_body sys se s w = (r, s', w') \<Longrightarrow> vv_counts_eq s s'"
  unfolding vv_rotation_body_def
  by (auto split: prod.splits sum.splits dest!: vv_shots_frame
      simp: vv_counts_eq_def simp del: vv_shots.simps)

lemma vv_zoom_body_frame:
  "vv_zoom_body sys se s w = (r, s', w') \<Longrightarrow> vv_counts_eq s s'"
  unfolding vv_zoom_body_def
  by (auto split: prod.splits sum.splits dest!: vv_shots_frame
      simp: vv_counts_eq_def simp del: vv_shots.simps)

lemma vv_background_colors_body_frame:
  "vv_background_colors_body sys se s w = (r, s', w') \<Longrightarrow> vv_counts_eq s s'"
  unfolding vv_background_colors_body_def by (rule vv_shots_frame)

lemma vv_rendering_controls_body_frame:
  "vv_rendering_controls_body sys se s w = (r, s', w') \<Longrightarrow> vv_counts_eq s s'"
  unfolding vv_rendering_controls_body_def by (rule vv_shots_frame)

lemma vv_finish_counts:
  assumes "vv_counts_eq (vv_begin s) s1" and "vv_finish name (r, s1, w1) = (b, s', w')"
  shows "vv_tests_run s' = vv_tests_run s + 1 \<and>
     (vv_tests_passed s' = vv_tests_passed s + 1 \<and> vv_tests_failed s' = vv_tests_failed s \<or>
      vv_tests_passed s' = vv_tests_passed s \<and> vv_tests_failed s' = vv_tests_failed s + 1)"
  using assms by (cases r) (auto simp: vv_finish_def vv_counts_eq_def vv_begin_def)

lemma length_strftime_compact: "length (strftime_compact t) = 15"
  by (simp add: strftime_compact_def pad2_def pad4_def)

lemma shot_ok_inj:
  assumes "shot_ok dir x" and "shot_ok dir y" and "shot_file x = shot_file y"
  shows "shot_name x = shot_name y"
proof -
  from assms(1) obtain t where x: "shot_file x = dir @ strftime_compact t @ ''_'' @ shot_name x @ ''.png''"
    by (auto simp: shot_ok_def)
  from assms(2) obtain u where y: "shot_file y = dir @ strftime_compact u @ ''_'' @ shot_name y @ ''.png''"
    by (auto simp: shot_ok_def)
  from x y assms(3) have
    "strftime_compact t @ (''_'' @ shot_name x @ ''.png'') = strftime_compact u @ (''_'' @ shot_name y @ ''.png'')"
    by simp
  then have "''_'' @ shot_name x @ ''.png'' = ''_'' @ shot_name y @ ''.png''"
    by (subst (asm) append_eq_append_conv) (simp_all add: length_strftime_compact)
  then show ?thesis by simp
qed

lemma shot_ok_mk:
  "shot_ok dir \<lparr>shot_name = n, shot_description = d,
                 shot_file = dir @ strftime_compact t @ ''_'' @ n @ ''.png'', shot_timestamp = ts\<rparr>"
  unfolding shot_ok_def by auto

lemma subseq_distinct: "subseq xs ys \<Longrightarrow> distinct ys \<Longrightarrow> distinct xs"
  by (induction rule: list_emb.induct) (auto dest: list_emb_set)

lemma distinct_files:
  "list_all (shot_ok dir) xs \<Longrightarrow> distinct (map shot_name xs) \<Longrightarrow> distinct (map shot_file xs)"
proof (induction xs)
  case (Cons x xs)
  then have "shot_file x \<notin> shot_file ` set xs"
    by (auto simp: list_all_iff dest!: shot_ok_inj[of dir x])
  with Cons show ?case by simp
qed simp

lemma shots_from_distinct:
  assumes "shots_from dir names xs" and "distinct names"
  shows "distinct (map shot_file xs)"
proof -
  from assms(1) have s: "subseq (map shot_name xs) names" and ok: "list_all (shot_ok dir) xs"
    by (auto simp: shots_from_def)
  from s assms(2) have "distinct (map shot_name xs)" by (rule subseq_distinct)
  with ok show ?thesis by (rule distinct_files)
qed

lemma shots_from_Nil: "shots_from dir names []"
  by (simp add: shots_from_def)

lemma shots_from_weaken:
  "shots_from dir n xs \<Longrightarrow> subseq n n' \<Longrightarrow> shots_from dir n' xs"
  unfolding shots_from_def using subseq_order.trans by blast

lemma shots_from_skip: "shots_from dir n xs \<Longrightarrow> shots_from dir (n @ m) xs"
  by (erule shots_from_weaken) (rule subseq_rev_drop_many, simp)

lemma shots_from_snoc:
  assumes "shots_from dir n xs"
  shows "shots_from dir (n @ [a])
     (xs @ [\<lparr>shot_name = a, shot_description = d,
              shot_file = dir @ strftime_compact t @ ''_'' @ a @ ''.png'', shot_timestamp = ts\<rparr>])"
proof -
  from assms have "subseq (map shot_name xs @ [a]) (n @ [a])"
    by (simp add: shots_from_def list_emb_append_mono)
  moreover have "shot_ok dir \<lparr>shot_name = a, shot_description = d,
              shot_file = dir @ strftime_compact t @ ''_'' @ a @ ''.png'', shot_timestamp = ts\<rparr>"
    by (rule shot_ok_mk)
  ultimately show ?thesis using assms by (simp add: shots_from_def)
qed

lemma vv_take_screenshot_shots:
  assumes "shots_from (screenshots_dir @ ''/'') n (vv_screenshots s)"
    and "vv_take_screenshot sys se a d s w = (r, s', w')"
  shows "shots_from (screenshots_dir @ ''/'') (n @ [a]) (vv_screenshots s')"
proof -
  from assms(2) have
    "s' = s \<or>
     (\<exists>t. vv_screenshots s' = vv_screenshots s @
              [\<lparr>shot_name = a, shot_description = d,
                shot_file = (screenshots_dir @ ''/'') @ strftime_compact t @ ''_'' @ a @ ''.png'',
                shot_timestamp = strftime_compact t\<rparr>])"
    by (auto simp: vv_take_screenshot_def Let_def split: prod.splits sum.splits)
  then show ?thesis
  proof
    assume "s' = s"
    with assms(1) show ?thesis by (simp add: shots_from_skip)
  next
    assume "\<exists>t. vv_screenshots s' = vv_screenshots s @
              [\<lparr>shot_name = a, shot_description = d,
                shot_file = (screenshots_dir @ ''/'') @ strftime_compact t @ ''_'' @ a @ ''.png'',
                shot_timestamp = strftime_compact t\<rparr>]"
    then obtain t where "vv_screenshots s' = vv_screenshots s @
              [\<lparr>shot_name = a, shot_description = d,
                shot_file = (screenshots_dir @ ''/'') @ strftime_compact t @ ''_'' @ a @ ''.png'',
                shot_timestamp = strftime_compact t\<rparr>]" ..
    with shots_from_snoc[OF assms(1)] show ?thesis by simp
  qed
qed

lemma vv_shots_shots:
  "shots_from (screenshots_dir @ ''/'') n (vv_screenshots s) \<Longrightarrow>
   vv_shots sys se ps s w = (r, s', w') \<Longrightarrow>
   shots_from (screenshots_dir @ ''/'') (n @ map fst ps) (vv_screenshots s')"
proof (induction ps arbitrary: n s w)
  case Nil
  then show ?case by simp
next
  case (Cons p ps)
  obtain a d where p: "p = (a, d)" by (cases p)
  obtain r1 s1 w1 where t: "vv_take_screenshot sys se a d s w = (r1, s1, w1)"
    by (cases "vv_take_screenshot sys se a d s w")
  have f1: "shots_from (screenshots_dir @ ''/'') (n @ [a]) (vv_screenshots s1)"
    using Cons.prems(1) t by (rule vv_take_screenshot_shots)
  show ?case
  proof (cases r1)
    case (Inl e)
    with Cons.prems p t have "s' = s1" by simp
    with shots_from_skip[OF f1, of "map fst ps"] p show ?thesis by simp
  next
    case (Inr u)
    with Cons.prems p t have "vv_shots sys se ps s1 w1 = (r, s', w')" by simp
    with f1 have "shots_from (screenshots_dir @ ''/'') ((n @ [a]) @ map fst ps) (vv_screenshots s')"
      by (rule Cons.IH)
    with p show ?thesis by simp
  qed
qed

lemma shots_from_skip2: "shots_from dir (n @ [a]) xs \<Longrightarrow> shots_from dir (n @ a # m) xs"
  using shots_from_skip[of dir "n @ [a]" xs m] by simp

lemma shots_from_skip3: "shots_from dir (n @ [a, b]) xs \<Longrightarrow> shots_from dir (n @ a # b # m) xs"
  using shots_from_skip[of dir "n @ [a, b]" xs m] by simp

lemma vv_shots_one:
  "shots_from (screenshots_dir @ ''/'') n (vv_screenshots s) \<Longrightarrow>
   vv_shots sys se [(a, d)] s w = (r, s', w') \<Longrightarrow>
   shots_from (screenshots_dir @ ''/'') (n @ [a]) (vv_screenshots s')"
  using vv_shots_shots[of n s sys se "[(a, d)]" w r s' w'] by simp

lemma vv_file_loading_xyz_body_shots:
  "shots_from (screenshots_dir @ ''/'') n (vv_screenshots s) \<Longrightarrow>
   vv_file_loading_xyz_body sys se s w = (r, s', w') \<Longrightarrow>
     shots_from (screenshots_dir @ ''/'') (n @ [''xyz_loading_initial'']) (vv_screenshots s')"
  unfolding vv_file_loading_xyz_body_def
  by (auto split: prod.splits sum.splits dest: vv_shots_shots
      simp: shots_from_skip simp del: vv_shots.simps)

lemma vv_rotation_body_shots:
  assumes Q: "shots_from (screenshots_dir @ ''/'') n (vv_screenshots s)"
    and B: "vv_rotation_body sys se s w = (r, s', w')"
  shows "shots_from (screenshots_dir @ ''/'') (n @ [''rotation_before'', ''rotation_after''])
       (vv_screenshots s')"
proof -
  obtain r1 s1 w1 where a:
    "vv_shots sys se [(''rotation_before'', ''Structure before rotation'')] s w = (r1, s1, w1)"
    using prod_cases3 by blast
  from B a have b: "s' = s1 \<or>
    (\<exists>wa. vv_shots sys se
       [(''rotation_after'', ''Structure after rotation (200px right, 100px down)'')] s1 wa
         = (r, s', w'))"
    unfolding vv_rotation_body_def
    by (auto split: prod.splits sum.splits simp del: vv_shots.simps)
  from Q a have q1: "shots_from (screenshots_dir @ ''/'') (n @ [''rotation_before'']) (vv_screenshots s1)"
    by (rule vv_shots_one)
  from b show ?thesis
  proof
    assume "s' = s1"
    with q1 show ?thesis by (simp add: shots_from_skip2)
  next
    assume "\<exists>wa. vv_shots sys se
       [(''rotation_after'', ''Structure after rotation (200px right, 100px down)'')] s1 wa
         = (r, s', w')"
    then obtain wa where "vv_shots sys se
       [(''rotation_after'', ''Structure after rotation (200px right, 100px down)'')] s1 wa
         = (r, s', w')" ..
    with q1 have "shots_from (screenshots_dir @ ''/'') ((n @ [''rotation_before'']) @ [''rotation_after''])
       (vv_screenshots s')" by (rule vv_shots_one)
    then show ?thesis by simp
  qed
qed

lemma vv_zoom_body_shots:
  assumes Q: "shots_from (screenshots_dir @ ''/'') n (vv_screenshots s)"
    and B: "vv_zoom_body sys se s w = (r, s', w')"
  shows "shots_from (screenshots_dir @ ''/'') (n @ [''zoom_initial'', ''zoom_in'', ''zoom_out''])
       (vv_screenshots s')"
proof -
  obtain r1 s1 w1 where a:
    "vv_shots sys se [(''zoom_initial'', ''Initial zoom level'')] s w = (r1, s1, w1)"
    using prod_cases3 by blast
  from B a have b: "s' = s1 \<or>
    (\<exists>wa r2 s2 w2. vv_shots sys se [(''zoom_in'', ''After zooming in (5 steps)'')] s1 wa = (r2, s2, w2) \<and>
       (s' = s2 \<or>
        (\<exists>wb. vv_shots sys se [(''zoom_out'', ''After zooming out (10 steps)'')] s2 wb = (r, s', w'))))"
    unfolding vv_zoom_body_def
    by (auto split: prod.splits sum.splits simp del: vv_shots.simps)
  from Q a have q1: "shots_from (screenshots_dir @ ''/'') (n @ [''zoom_initial'']) (vv_screenshots s1)"
    by (rule vv_shots_one)
  from b show ?thesis
  proof
    assume "s' = s1"
    with q1 show ?thesis by (simp add: shots_from_skip2)
  next
    assume "\<exists>wa r2 s2 w2. vv_shots sys se [(''zoom_in'', ''After zooming in (5 steps)'')] s1 wa = (r2, s2, w2) \<and>
       (s' = s2 \<or>
        (\<exists>wb. vv_shots sys se [(''zoom_out'', ''After zooming out (10 steps)'')] s2 wb = (r, s', w')))"
    then obtain wa r2 s2 w2 where
      c: "vv_shots sys se [(''zoom_in'', ''After zooming in (5 steps)'')] s1 wa = (r2, s2, w2)" and
      d: "s' = s2 \<or>
        (\<exists>wb. vv_shots sys se [(''zoom_out'', ''After zooming out (10 steps)'')] s2 wb = (r, s', w'))"
      by blast
    from q1 c have "shots_from (screenshots_dir @ ''/'') ((n @ [''zoom_initial'']) @ [''zoom_in''])
       (vv_screenshots s2)" by (rule vv_shots_one)
    then have q2: "shots_from (screenshots_dir @ ''/'') (n @ [''zoom_initial'', ''zoom_in''])
       (vv_screenshots s2)" by simp
    from d show ?thesis
    proof
      assume "s' = s2"
      with q2 show ?thesis by (simp add: shots_from_skip3)
    next
      assume "\<exists>wb. vv_shots sys se [(''zoom_out'', ''After zooming out (10 steps)'')] s2 wb = (r, s', w')"
      then obtain wb where
        "vv_shots sys se [(''zoom_out'', ''After zooming out (10 steps)'')] s2 wb = (r, s', w')" ..
      with q2 have "shots_from (screenshots_dir @ ''/'') ((n @ [''zoom_initial'', ''zoom_in'']) @ [''zoom_out''])
         (vv_screenshots s')" by (rule vv_shots_one)
      then show ?thesis by simp
    qed
  qed
qed

lemma vv_background_colors_body_shots:
  "shots_from (screenshots_dir @ ''/'') n (vv_screenshots s) \<Longrightarrow>
   vv_background_colors_body sys se s w = (r, s', w') \<Longrightarrow>
     shots_from (screenshots_dir @ ''/'')
       (n @ [''background_black'', ''background_white'', ''background_gray'']) (vv_screenshots s')"
  unfolding vv_background_colors_body_def
  by (drule (1) vv_shots_shots) simp

lemma vv_rendering_controls_body_shots:
  "shots_from (screenshots_dir @ ''/'') n (vv_screenshots s) \<Longrightarrow>
   vv_rendering_controls_body sys se s w = (r, s', w') \<Longrightarrow>
     shots_from (screenshots_dir @ ''/'') (n @ [''ssaa_off'', ''ssaa_on'', ''ao_off'', ''ao_on''])
       (vv_screenshots s')"
  unfolding vv_rendering_controls_body_def
  by (drule (1) vv_shots_shots) simp

lemma vv_finish_shots:
  "vv_finish name (r, s1, w1) = (b, s', w') \<Longrightarrow> vv_screenshots s' = vv_screenshots s1"
  by (cases r) (auto simp: vv_finish_def)

lemma vv_finish_driver:
  "vv_finish name (r, s1, w1) = (b, s', w') \<Longrightarrow> vv_driver s' = vv_driver s1"
  by (cases r) (auto simp: vv_finish_def)

lemma vv_begin_shots [simp]: "vv_screenshots (vv_begin s) = vv_screenshots s"
  by (simp add: vv_begin_def)

lemma vv_begin_driver [simp]: "vv_driver (vv_begin s) = vv_driver s"
  by (simp add: vv_begin_def)

lemma vv_test_file_loading_xyz_props:
  assumes "vv_test_file_loading_xyz sys se s w = (b, s', w')"
  shows "vv_driver s' = vv_driver s"
    and "shots_from (screenshots_dir @ ''/'') n (vv_screenshots s) \<Longrightarrow>
         shots_from (screenshots_dir @ ''/'') (n @ [''xyz_loading_initial'']) (vv_screenshots s')"
proof -
  obtain r s1 w1 where a: "vv_file_loading_xyz_body sys se (vv_begin s) w = (r, s1, w1)"
    using prod_cases3 by blast
  with assms have f: "vv_finish ''XYZ File Loading'' (r, s1, w1) = (b, s', w')"
    by (simp add: vv_test_file_loading_xyz_def)
  from a have "vv_counts_eq (vv_begin s) s1" by (rule vv_file_loading_xyz_body_frame)
  with f show "vv_driver s' = vv_driver s"
    by (auto dest: vv_finish_driver simp: vv_counts_eq_def)
  assume "shots_from (screenshots_dir @ ''/'') n (vv_screenshots s)"
  then have "shots_from (screenshots_dir @ ''/'') n (vv_screenshots (vv_begin s))" by simp
  from this a have "shots_from (screenshots_dir @ ''/'') (n @ [''xyz_loading_initial'']) (vv_screenshots s1)"
    by (rule vv_file_loading_xyz_body_shots)
  with f show "shots_from (screenshots_dir @ ''/'') (n @ [''xyz_loading_initial'']) (vv_screenshots s')"
    by (auto dest: vv_finish_shots)
qed

lemma vv_test_rotation_props:
  assumes "vv_test_rotation sys se s w = (b, s', w')"
  shows "vv_driver s' = vv_driver s"
    and "shots_from (screenshots_dir @ ''/'') n (vv_screenshots s) \<Longrightarrow>
         shots_from (screenshots_dir @ ''/'') (n @ [''rotation_before'', ''rotation_after''])
           (vv_screenshots s')"
proof -
  obtain r s1 w1 where a: "vv_rotation_body sys se (vv_begin s) w = (r, s1, w1)"
    using prod_cases3 by blast
  with assms have f: "vv_finish ''Rotation'' (r, s1, w1) = (b, s', w')"
    by (simp add: vv_test_rotation_def)
  from a have "vv_counts_eq (vv_begin s) s1" by (rule vv_rotation_body_frame)
  with f show "vv_driver s' = vv_driver s"
    by (auto dest: vv_finish_driver simp: vv_counts_eq_def)
  assume "shots_from (screenshots_dir @ ''/'') n (vv_screenshots s)"
  then have "shots_from (screenshots_dir @ ''/'') n (vv_screenshots (vv_begin s))" by simp
  from this a have "shots_from (screenshots_dir @ ''/'') (n @ [''rotation_before'', ''rotation_after''])
      (vv_screenshots s1)"
    by (rule vv_rotation_body_shots)
  with f show "shots_from (screenshots_dir @ ''/'') (n @ [''rotation_before'', ''rotation_after''])
      (vv_screenshots s')"
    by (auto dest: vv_finish_shots)
qed

lemma vv_test_zoom_props:
  assumes "vv_test_zoom sys se s w = (b, s', w')"
  shows "vv_driver s' = vv_driver s"
    and "shots_from (screenshots_dir @ ''/'') n (vv_screenshots s) \<Longrightarrow>
         shots_from (screenshots_dir @ ''/'') (n @ [''zoom_initial'', ''zoom_in'', ''zoom_out''])
           (vv_screenshots s')"
proof -
  obtain r s1 w1 where a: "vv_zoom_body sys se (vv_begin s) w = (r, s1, w1)"
    using prod_cases3 by blast
  with assms have f: "vv_finish ''Zoom'' (r, s1, w1) = (b, s', w')"
    by (simp add: vv_test_zoom_def)
  from a have "vv_counts_eq (vv_begin s) s1" by (rule vv_zoom_body_frame)
  with f show "vv_driver s' = vv_driver s"
    by (auto dest: vv_finish_driver simp: vv_counts_eq_def)
  assume "shots_from (screenshots_dir @ ''/'') n (vv_screenshots s)"
  then have "shots_from (screenshots_dir @ ''/'') n (vv_screenshots (vv_begin s))" by simp
  from this a have "shots_from (screenshots_dir @ ''/'') (n @ [''zoom_initial'', ''zoom_in'', ''zoom_out''])
      (vv_screenshots s1)"
    by (rule vv_zoom_body_shots)
  with f show "shots_from (screenshots_dir @ ''/'') (n @ [''zoom_initial'', ''zoom_in'', ''zoom_out''])
      (vv_screenshots s')"
    by (auto dest: vv_finish_shots)
qed

lemma vv_test_background_colors_props:
  assumes "vv_test_background_colors sys se s w = (b, s', w')"
  shows "vv_driver s' = vv_driver s"
    and "shots_from (screenshots_dir @ ''/'') n (vv_screenshots s) \<Longrightarrow>
         shots_from (screenshots_dir @ ''/'')
           (n @ [''background_black'', ''background_white'', ''background_gray''])
           (vv_screenshots s')"
proof -
  obtain r s1 w1 where a: "vv_background_colors_body sys se (vv_begin s) w = (r, s1, w1)"
    using prod_cases3 by blast
  with assms have f: "vv_finish ''Background Colors'' (r, s1, w1) = (b, s', w')"
    by (simp add: vv_test_background_colors_def)
  from a have "vv_counts_eq (vv_begin s) s1" by (rule vv_background_colors_body_frame)
  with f show "vv_driver s' = vv_driver s"
    by (auto dest: vv_finish_driver simp: vv_counts_eq_def)
  assume "shots_from (screenshots_dir @ ''/'') n (vv_screenshots s)"
  then have "shots_from (screenshots_dir @ ''/'') n (vv_screenshots (vv_begin s))" by simp
  from this a have "shots_from (screenshots_dir @ ''/'')
      (n @ [''background_black'', ''background_white'', ''background_gray'']) (vv_screenshots s1)"
    by (rule vv_background_colors_body_shots)
  with f show "shots_from (screenshots_dir @ ''/'')
      (n @ [''background_black'', ''background_white'', ''background_gray'']) (vv_screenshots s')"
    by (auto dest: vv_finish_shots)
qed

lemma vv_test_rendering_controls_props:
  assumes "vv_test_rendering_controls sys se s w = (b, s', w')"
  shows "vv_driver s' = vv_driver s"
    and "shots_from (screenshots_dir @ ''/'') n (vv_screenshots s) \<Longrightarrow>
         shots_from (screenshots_dir @ ''/'') (n @ [''ssaa_off'', ''ssaa_on'', ''ao_off'', ''ao_on''])
           (vv_screenshots s')"
proof -
  obtain r s1 w1 where a: "vv_rendering_controls_body sys se (vv_begin s) w = (r, s1, w1)"
    using prod_cases3 by blast
  with assms have f: "vv_finish ''Rendering Controls'' (r, s1, w1) = (b, s', w')"
    by (simp add: vv_test_rendering_controls_def)
  from a have "vv_counts_eq (vv_begin s) s1" by (rule vv_rendering_controls_body_frame)
  with f show "vv_driver s' = vv_driver s"
    by (auto dest: vv_finish_driver simp: vv_counts_eq_def)
  assume "shots_from (screenshots_dir @ ''/'') n (vv_screenshots s)"
  then have "shots_from (screenshots_dir @ ''/'') n (vv_screenshots (vv_begin s))" by simp
  from this a have "shots_from (screenshots_dir @ ''/'')
      (n @ [''ssaa_off'', ''ssaa_on'', ''ao_off'', ''ao_on'']) (vv_screenshots s1)"
    by (rule vv_rendering_controls_body_shots)
  with f show "shots_from (screenshots_dir @ ''/'')
      (n @ [''ssaa_off'', ''ssaa_on'', ''ao_off'', ''ao_on'']) (vv_screenshots s')"
    by (auto dest: vv_finish_shots)
qed

lemma vv_generate_report_state:
  "vv_generate_report sys s w = (r, d, s', w') \<Longrightarrow> s' = s"
  by (auto simp: vv_generate_report_def Let_def split: prod.splits sum.splits)

lemma vv_start_driver_props:
  assumes "vv_start_driver se vv_init w = (r, s, w')"
  shows "vv_screenshots s = []" and "vv_driver s = (\<not> isl (fst (chrome se w)))"
  using assms
  by (auto simp: vv_start_driver_def vv_init_def Let_def split: prod.splits sum.splits)

lemma vv_main_body_props:
  assumes "vv_main_body sys se vv_init w = (r, reports, s, w')"
  shows "shots_from (screenshots_dir @ ''/'') vv_shot_names (vv_screenshots s)"
    and "vv_driver s = (\<not> isl (fst (chrome se w)))"
    and "reports = (if isl (fst (vv_start_driver se vv_init w)) then 0 else 1)"
proof -
  obtain r0 s0 w0 where a: "vv_start_driver se vv_init w = (r0, s0, w0)"
    using prod_cases3 by blast
  note p0 = vv_start_driver_props[OF a]
  have "shots_from (screenshots_dir @ ''/'') vv_shot_names (vv_screenshots s) \<and>
        vv_driver s = (\<not> isl (fst (chrome se w))) \<and>
        reports = (if isl r0 then 0 else 1)"
  proof (cases r0)
    case (Inl e)
    with assms a have "s = s0" "reports = 0" by (simp_all add: vv_main_body_def)
    with p0 Inl show ?thesis by (simp add: shots_from_Nil)
  next
    case (Inr u)
    obtain b1 s1 w1 where t1: "vv_test_file_loading_xyz sys se s0 w0 = (b1, s1, w1)"
      using prod_cases3 by blast
    obtain b2 s2 w2 where t2: "vv_test_rotation sys se s1 w1 = (b2, s2, w2)"
      using prod_cases3 by blast
    obtain b3 s3 w3 where t3: "vv_test_zoom sys se s2 w2 = (b3, s3, w3)"
      using prod_cases3 by blast
    obtain b4 s4 w4 where t4: "vv_test_background_colors sys se s3 w3 = (b4, s4, w4)"
      using prod_cases3 by blast
    obtain b5 s5 w5 where t5: "vv_test_rendering_controls sys se s4 w4 = (b5, s5, w5)"
      using prod_cases3 by blast
    obtain r6 d6 s6 w6 where t6: "vv_generate_report sys s5 w5 = (r6, d6, s6, w6)"
      using prod_cases4 by blast
    from t6 have s6: "s6 = s5" by (rule vv_generate_report_state)
    from assms a Inr t1 t2 t3 t4 t5 t6 have fin: "s = s6" "reports = 1"
      by (auto simp: vv_main_body_def split: sum.splits)
    have "shots_from (screenshots_dir @ ''/'') [] (vv_screenshots s0)"
      using p0(1) by (simp add: shots_from_Nil)
    from vv_test_file_loading_xyz_props(2)[OF t1 this]
    have "shots_from (screenshots_dir @ ''/'') [''xyz_loading_initial''] (vv_screenshots s1)" by simp
    from vv_test_rotation_props(2)[OF t2 this]
    have "shots_from (screenshots_dir @ ''/'')
      [''xyz_loading_initial'', ''rotation_before'', ''rotation_after''] (vv_screenshots s2)" by simp
    from vv_test_zoom_props(2)[OF t3 this]
    have "shots_from (screenshots_dir @ ''/'')
      [''xyz_loading_initial'', ''rotation_before'', ''rotation_after'',
       ''zoom_initial'', ''zoom_in'', ''zoom_out''] (vv_screenshots s3)" by simp
    from vv_test_background_colors_props(2)[OF t4 this]
    have "shots_from (screenshots_dir @ ''/'')
      [''xyz_loading_initial'', ''rotation_before'', ''rotation_after'',
       ''zoom_initial'', ''zoom_in'', ''zoom_out'',
       ''background_black'', ''background_white'', ''background_gray''] (vv_screenshots s4)" by simp
    from vv_test_rendering_controls_props(2)[OF t5 this]
    have sh: "shots_from (screenshots_dir @ ''/'') vv_shot_names (vv_screenshots s5)"
      by (simp add: vv_shot_names_def)
    have "vv_driver s5 = vv_driver s0"
      using vv_test_file_loading_xyz_props(1)[OF t1] vv_test_rotation_props(1)[OF t2]
        vv_test_zoom_props(1)[OF t3] vv_test_background_colors_props(1)[OF t4]
        vv_test_rendering_controls_props(1)[OF t5] by simp
    with sh fin s6 p0 Inr show ?thesis by simp
  qed
  with a show "shots_from (screenshots_dir @ ''/'') vv_shot_names (vv_screenshots s)"
    and "vv_driver s = (\<not> isl (fst (chrome se w)))"
    and "reports = (if isl (fst (vv_start_driver se vv_init w)) then 0 else 1)"
    by simp_all
qed

lemma vv_main_props:
  shows "shots_from (screenshots_dir @ ''/'') vv_shot_names
           (vv_screenshots (run_state (vv_main sys se w)))"
    and "run_releases (vv_main sys se w) = (if isl (fst (chrome se w)) then 0 else 1)"
    and "run_reports (vv_main sys se w) = (if isl (fst (vv_start_driver se vv_init w)) then 0 else 1)"
proof -
  obtain r reports s w1 where a: "vv_main_body sys se vv_init w = (r, reports, s, w1)"
    using prod_cases4 by blast
  note p = vv_main_body_props[OF a]
  obtain r2 releases w2 where b: "vv_stop_driver se s w1 = (r2, releases, w2)"
    using prod_cases3 by blast
  from b p(2) have rel: "releases = (if isl (fst (chrome se w)) then 0 else 1)"
    by (auto simp: vv_stop_driver_def split: if_splits prod.splits)
  from a b have "run_state (vv_main sys se w) = s" "run_releases (vv_main sys se w) = releases"
    "run_reports (vv_main sys se w) = reports"
    by (simp_all add: vv_main_def)
  with p rel show "shots_from (screenshots_dir @ ''/'') vv_shot_names
           (vv_screenshots (run_state (vv_main sys se w)))"
    and "run_releases (vv_main sys se w) = (if isl (fst (chrome se w)) then 0 else 1)"
    and "run_reports (vv_main sys se w) = (if isl (fst (vv_start_driver se vv_init w)) then 0 else 1)"
    by simp_all
qed


text \<open>
  Claim C10. Every test method of \<^verbatim>\<open>AxiomVisualValidator\<close> increments
  \<^verbatim>\<open>tests_run\<close> by exactly 1 and exactly one of \<^verbatim>\<open>tests_passed\<close> and
  \<^verbatim>\<open>tests_failed\<close> by exactly 1; so when \<^verbatim>\<open>tests_run = tests_passed + tests_failed\<close>
  holds before a test method, it holds when the method returns.
\<close>

theorem vv_test_counters:
  assumes "T \<in> set (vv_test_methods sys se)" and "T s w = (b, s', w')"
  shows "vv_tests_run s' = vv_tests_run s + 1 \<and>
     (vv_tests_passed s' = vv_tests_passed s + 1 \<and> vv_tests_failed s' = vv_tests_failed s \<or>
      vv_tests_passed s' = vv_tests_passed s \<and> vv_tests_failed s' = vv_tests_failed s + 1) \<and>
     (vv_tests_run s = vv_tests_passed s + vv_tests_failed s \<longrightarrow>
      vv_tests_run s' = vv_tests_passed s' + vv_tests_failed s')"
proof -
  have "\<exists>name r s1 w1. vv_counts_eq (vv_begin s) s1 \<and> vv_finish name (r, s1, w1) = (b, s', w')"
    using assms
    by (auto simp: vv_test_methods_def vv_test_file_loading_xyz_def vv_test_rotation_def
        vv_test_zoom_def vv_test_background_colors_def vv_test_rendering_controls_def
        dest: vv_file_loading_xyz_body_frame vv_rotation_body_frame vv_zoom_body_frame
          vv_background_colors_body_frame vv_rendering_controls_body_frame)
       (metis prod_cases3 vv_file_loading_xyz_body_frame vv_rotation_body_frame vv_zoom_body_frame
          vv_background_colors_body_frame vv_rendering_controls_body_frame)+
  then obtain name r s1 w1 where
    "vv_counts_eq (vv_begin s) s1" "vv_finish name (r, s1, w1) = (b, s', w')" by blast
  from vv_finish_counts[OF this] show ?thesis by auto
qed

theorem vv_test_counters_witness:
  "vv_test_rotation sim_sys sim_selenium \<in> set (vv_test_methods sim_sys sim_selenium) \<and>
   vv_tests_run vv_init = vv_tests_passed vv_init + vv_tests_failed vv_init \<and>
   vv_tests_run (fst (snd (vv_test_rotation sim_sys sim_selenium vv_init sim_blank))) = 1 \<and>
   vv_tests_passed (fst (snd (vv_test_rotation sim_sys sim_selenium vv_init sim_blank))) = 0 \<and>
   vv_tests_failed (fst (snd (vv_test_rotation sim_sys sim_selenium vv_init sim_blank))) = 1"
proof -
  let ?X = "vv_test_rotation sim_sys sim_selenium vv_init sim_blank"
  have m: "vv_test_rotation sim_sys sim_selenium \<in> set (vv_test_methods sim_sys sim_selenium)"
    by (simp add: vv_test_methods_def)
  have e: "?X = (fst ?X, fst (snd ?X), snd (snd ?X))" by simp
  have f: "vv_tests_failed (fst (snd ?X)) = 1"
    by (simp add: vv_test_rotation_def vv_rotation_body_def vv_take_screenshot_def vv_finish_def
        vv_begin_def vv_init_def sim_sys_def sim_selenium_def sim_blank_def sim_lookup_def Let_def)
  from vv_test_counters[OF m e] f m show ?thesis by (simp add: vv_init_def)
qed

lemmas wd_eval =
  wd_main_def wd_main_body_def wd_setup_driver_def wd_close_driver_def wd_init_def
  wd_test_gui_loads_def wd_gui_loads_body_def wd_take_screenshot_def
  wd_test_controls_visible_def wd_controls_visible_body_def wd_count_controls_def
  wd_test_rotation_def wd_rotation_body_def wd_except_def wd_record_error_def wd_outcome_def
  wd_test_load_structure_def wd_load_structure_body_def
  wd_generate_report_def wd_structures_text_def
  sim_sys_def sim_selenium_def sim_blank_def sim_lookup_def exit_signal_def Let_def app_url_def

text \<open>
  Claim C1. The process exit signal is 0 if no ERROR or FAIL outcome was recorded and
  non-zero otherwise. The \<^verbatim>\<open>main\<close> of \<^verbatim>\<open>webdriver_visual_test.py\<close> does not do
  this: run against a page without a canvas, with a working driver, it records a FAIL
  outcome (\<^verbatim>\<open>test_gui_loads\<close>) and an ERROR outcome (\<^verbatim>\<open>test_rotation\<close>) and
  exits with status 0.
\<close>

theorem wd_main_exit_with_failures:
  "exit_signal (wd_main sim_sys sim_selenium sim_blank) = 0 \<and>
   map wt_result (wd_tests (run_state (wd_main sim_sys sim_selenium sim_blank))) =
     [''FAIL'', ''PASS'', ''ERROR'']"
  by (simp add: wd_eval)

text \<open>
  Claim C4. For a session without any outcome, report generation succeeds and the
  summary shows total 0, passed 0 and failed 0. \<^verbatim>\<open>AxiomRenderTest.generate_report\<close>
  does not: with an empty \<^verbatim>\<open>results["tests"]\<close> it writes the three count lines and
  then raises \<^verbatim>\<open>ZeroDivisionError\<close> from \<^verbatim>\<open>passed/total*100\<close>, whatever the
  formatting \<open>rate\<close> of the success rate is.
\<close>

theorem ar_generate_report_empty_session:
  "ar_generate_report sim_sys rate \<lparr>ar_tests = [], ar_structures_loaded = [], ar_errors = []\<rparr> sim_blank =
     (Inl ''division by zero'',
      Some (''# Axiom Library Test Report'' @ nl @ nl @
            ''Generated: 2026-03-09 14:05:07'' @ nl @ nl @
            ''## Summary'' @ nl @ nl @
            ''- Total Tests: 0'' @ nl @ ''- Passed: 0'' @ nl @ ''- Failed: 0'' @ nl),
      \<lparr>ar_tests = [], ar_structures_loaded = [], ar_errors = []\<rparr>, sim_blank)"
  by (simp add: ar_generate_report_def sim_sys_def sim_blank_def sim_time_def Let_def sum1_def
      strftime_human_def pad2_def pad4_def digit_char_def)

text \<open>The report of \<^verbatim>\<open>direct_render_test.py\<close> has no rate line: on the empty session
  it is written in full, with the four counts 0.\<close>

lemma dr_generate_report_empty_session:
  "fst (dr_generate_report sim_sys dr_init sim_blank) = Inr dr_report_path \<and>
   dr_summary dr_init =
     ''## Summary'' @ nl @ nl @ ''- Total Tests: 0'' @ nl @ ''- Passed: 0'' @ nl @
     ''- Failed: 0'' @ nl @ ''- Images Generated: 0'' @ nl @ nl"
  by (simp add: dr_generate_report_def dr_summary_def dr_init_def sim_sys_def Let_def sum1_def
      digit_char_def)

text \<open>
  Claim C5. A look-up without a match gives an empty result instead of an exception,
  and the test step built on it records FAIL with a defect entry, never ERROR.
  \<^verbatim>\<open>WebDriverVisualTest.test_rotation\<close> does not: on a page without a canvas (where
  \<^verbatim>\<open>find_elements\<close> gives the empty list) its \<^verbatim>\<open>find_element\<close> raises, and the
  method records an ERROR outcome and no entry of \<^verbatim>\<open>bugs\<close>.
\<close>

theorem wd_test_rotation_without_canvas:
  "wd_test_rotation sim_sys sim_selenium wd_init sim_blank =
     (False,
      wd_init\<lparr>wd_tests :=
        [\<lparr>wt_name = ''Rotation'', wt_result = ''ERROR'', wt_note = None,
          wt_error = Some ''no such element: Unable to locate element'',
          wt_controls = None, wt_keywords = None\<rparr>]\<rparr>,
      sim_blank)
   \<and> wd_bugs (fst (snd (wd_test_rotation sim_sys sim_selenium wd_init sim_blank))) = []
   \<and> fst (find_elements sim_selenium TAG_NAME ''canvas'' sim_blank) = Inr []"
  by (simp add: wd_test_rotation_def wd_rotation_body_def wd_except_def wd_record_error_def
      wd_outcome_def wd_init_def sim_selenium_def sim_blank_def sim_lookup_def)

text \<open>The two sibling methods degrade to FAIL with a defect entry on the same page.\<close>

lemma wd_test_gui_loads_without_canvas:
  "wd_tests (fst (snd (wd_test_gui_loads sim_sys sim_selenium wd_init sim_blank))) =
     [wd_outcome ''GUI Loading'' ''FAIL''] \<and>
   wd_bugs (fst (snd (wd_test_gui_loads sim_sys sim_selenium wd_init sim_blank))) =
     [\<lparr>wb_test = ''GUI Loading'', wb_issue = ''No canvas element found in DOM''\<rparr>]"
  by (simp add: wd_eval)

lemma wd_test_load_structure_without_input:
  "wd_tests (fst (snd (wd_test_load_structure sim_sys sim_selenium ''water.xyz'' wd_init sim_blank))) =
     [wd_outcome ''Load Structure: water.xyz'' ''FAIL''] \<and>
   wd_bugs (fst (snd (wd_test_load_structure sim_sys sim_selenium ''water.xyz'' wd_init sim_blank))) =
     [\<lparr>wb_test = ''Load Structure: water.xyz'', wb_issue = ''No file input element found''\<rparr>]"
  by (simp add: wd_eval)

lemma wd_take_screenshot_props:
  assumes "wd_take_screenshot sys se a d s w = (r, s', w')"
  shows "wd_driver s' = wd_driver s" and "wd_tests s' = wd_tests s" and "wd_bugs s' = wd_bugs s"
    and "shots_from [] n (wd_screenshots s) \<Longrightarrow> shots_from [] (n @ [a]) (wd_screenshots s')"
proof -
  from assms have e:
    "s' = s \<or>
     (\<exists>t. s' = s\<lparr>wd_screenshots := wd_screenshots s @
              [\<lparr>shot_name = a, shot_description = d,
                shot_file = [] @ strftime_compact t @ ''_'' @ a @ ''.png'',
                shot_timestamp = strftime_compact t\<rparr>]\<rparr>)"
    by (auto simp: wd_take_screenshot_def Let_def split: prod.splits sum.splits)
  then show "wd_driver s' = wd_driver s" "wd_tests s' = wd_tests s" "wd_bugs s' = wd_bugs s"
    by auto
  assume q: "shots_from [] n (wd_screenshots s)"
  from e show "shots_from [] (n @ [a]) (wd_screenshots s')"
  proof
    assume "s' = s"
    with q show ?thesis by (simp add: shots_from_skip)
  next
    assume "\<exists>t. s' = s\<lparr>wd_screenshots := wd_screenshots s @
              [\<lparr>shot_name = a, shot_description = d,
                shot_file = [] @ strftime_compact t @ ''_'' @ a @ ''.png'',
                shot_timestamp = strftime_compact t\<rparr>]\<rparr>"
    then obtain t where "wd_screenshots s' = wd_screenshots s @
              [\<lparr>shot_name = a, shot_description = d,
                shot_file = [] @ strftime_compact t @ ''_'' @ a @ ''.png'',
                shot_timestamp = strftime_compact t\<rparr>]" by auto
    with shots_from_snoc[OF q, of a d t "strftime_compact t"] show ?thesis by simp
  qed
qed

lemma wd_gui_loads_body_props:
  assumes B: "wd_gui_loads_body sys se s w = (r, s', w')"
  shows "wd_driver s' = wd_driver s"
    and "shots_from [] n (wd_screenshots s) \<Longrightarrow> shots_from [] (n @ [''00_gui_loaded'']) (wd_screenshots s')"
proof -
  from B have sh: "s' = s \<or>
    (\<exists>wa r1 s1 w1. wd_take_screenshot sys se ''00_gui_loaded'' ''GUI initial load'' s wa = (r1, s1, w1) \<and>
       wd_screenshots s' = wd_screenshots s1 \<and> wd_driver s' = wd_driver s1)"
    unfolding wd_gui_loads_body_def
    by (fastforce simp: Let_def split: prod.splits sum.splits if_splits)
  then show "wd_driver s' = wd_driver s" by (auto dest: wd_take_screenshot_props(1))
  assume q: "shots_from [] n (wd_screenshots s)"
  from sh show "shots_from [] (n @ [''00_gui_loaded'']) (wd_screenshots s')"
    using q by (auto dest: wd_take_screenshot_props(4) simp: shots_from_skip)
qed

lemma wd_controls_visible_body_props:
  assumes B: "wd_controls_visible_body sys se s w = (r, s', w')"
  shows "wd_driver s' = wd_driver s"
    and "shots_from [] n (wd_screenshots s) \<Longrightarrow> shots_from [] (n @ [''ui_controls'']) (wd_screenshots s')"
proof -
  from B have sh:
    "\<exists>r1 s1 w1. wd_take_screenshot sys se ''ui_controls'' ''UI controls overview'' s w = (r1, s1, w1) \<and>
       wd_screenshots s' = wd_screenshots s1 \<and> wd_driver s' = wd_driver s1"
    unfolding wd_controls_visible_body_def
    by (fastforce simp: Let_def split: prod.splits sum.splits)
  then show "wd_driver s' = wd_driver s" by (auto dest: wd_take_screenshot_props(1))
  assume q: "shots_from [] n (wd_screenshots s)"
  from sh show "shots_from [] (n @ [''ui_controls'']) (wd_screenshots s')"
    using q by (auto dest: wd_take_screenshot_props(4))
qed

lemma wd_load_structure_body_props:
  assumes B: "wd_load_structure_body sys se struct s w = (r, s', w')"
  shows "wd_driver s' = wd_driver s"
    and "shots_from [] n (wd_screenshots s) \<Longrightarrow>
         shots_from [] (n @ [''structure_'' @ path_stem struct]) (wd_screenshots s')"
proof -
  from B have sh: "(wd_screenshots s' = wd_screenshots s \<and> wd_driver s' = wd_driver s) \<or>
    (\<exists>wa r1 s1 w1. wd_take_screenshot sys se (''structure_'' @ path_stem struct)
         (''Loaded structure: '' @ struct) s wa = (r1, s1, w1) \<and>
       wd_screenshots s' = wd_screenshots s1 \<and> wd_driver s' = wd_driver s1)"
    unfolding wd_load_structure_body_def
    by (fastforce simp: Let_def split: prod.splits sum.splits list.splits if_splits)
  then show "wd_driver s' = wd_driver s" by (auto dest: wd_take_screenshot_props(1))
  assume q: "shots_from [] n (wd_screenshots s)"
  from sh show "shots_from [] (n @ [''structure_'' @ path_stem struct]) (wd_screenshots s')"
    using q by (auto dest: wd_take_screenshot_props(4) simp: shots_from_skip)
qed

lemma wd_rotation_body_props:
  assumes B: "wd_rotation_body sys se s w = (r, s', w')"
  shows "wd_driver s' = wd_driver s"
    and "shots_from [] n (wd_screenshots s) \<Longrightarrow>
         shots_from [] (n @ [''rotation_before'', ''rotation_after'']) (wd_screenshots s')"
proof -
  from B have sh: "s' = s \<or>
    (\<exists>wa r1 s1 w1. wd_take_screenshot sys se ''rotation_before'' ''Before rotation'' s wa = (r1, s1, w1) \<and>
       (s' = s1 \<or>
        (\<exists>wb r2 s2 w2. wd_take_screenshot sys se ''rotation_after''
             ''After rotation (drag 200x100)'' s1 wb = (r2, s2, w2) \<and>
           wd_screenshots s' = wd_screenshots s2 \<and> wd_driver s' = wd_driver s2)))"
    unfolding wd_rotation_body_def
    by (fastforce simp: Let_def split: prod.splits sum.splits)
  then show "wd_driver s' = wd_driver s" by (auto dest: wd_take_screenshot_props(1))
  assume q: "shots_from [] n (wd_screenshots s)"
  from sh show "shots_from [] (n @ [''rotation_before'', ''rotation_after'']) (wd_screenshots s')"
  proof (elim disjE exE conjE)
    assume "s' = s"
    with q show ?thesis by (simp add: shots_from_skip)
  next
    fix wa r1 s1 w1
    assume a: "wd_take_screenshot sys se ''rotation_before'' ''Before rotation'' s wa = (r1, s1, w1)"
      and "s' = s1"
    from wd_take_screenshot_props(4)[OF a q] \<open>s' = s1\<close> show ?thesis
      by (simp add: shots_from_skip2)
  next
    fix wa r1 s1 w1 wb r2 s2 w2
    assume a: "wd_take_screenshot sys se ''rotation_before'' ''Before rotation'' s wa = (r1, s1, w1)"
      and b: "wd_take_screenshot sys se ''rotation_after'' ''After rotation (drag 200x100)'' s1 wb = (r2, s2, w2)"
      and c: "wd_screenshots s' = wd_screenshots s2"
    from wd_take_screenshot_props(4)[OF b wd_take_screenshot_props(4)[OF a q]] c show ?thesis
      by simp
  qed
qed

lemma wd_except_props:
  assumes "wd_except name (r, s1, w1) = (b, s', w')"
  shows "wd_driver s' = wd_driver s1" and "wd_screenshots s' = wd_screenshots s1"
  using assms by (cases r; auto simp: wd_except_def wd_record_error_def)+

lemma wd_test_gui_loads_props:
  assumes T: "wd_test_gui_loads sys se s w = (b, s', w')"
  shows "wd_driver s' = wd_driver s"
    and "shots_from [] n (wd_screenshots s) \<Longrightarrow> shots_from [] (n @ [''00_gui_loaded'']) (wd_screenshots s')"
proof -
  obtain r s1 w1 where a: "wd_gui_loads_body sys se s w = (r, s1, w1)"
    using prod_cases3 by blast
  with T have f: "wd_driver s' = wd_driver s1" "wd_screenshots s' = wd_screenshots s1"
    by (cases r; auto simp: wd_test_gui_loads_def wd_record_error_def)+
  with wd_gui_loads_body_props(1)[OF a] show "wd_driver s' = wd_driver s" by simp
  assume "shots_from [] n (wd_screenshots s)"
  from wd_gui_loads_body_props(2)[OF a this] f
  show "shots_from [] (n @ [''00_gui_loaded'']) (wd_screenshots s')" by simp
qed

lemma wd_test_controls_visible_props:
  assumes T: "wd_test_controls_visible sys se s w = (b, s', w')"
  shows "wd_driver s' = wd_driver s"
    and "shots_from [] n (wd_screenshots s) \<Longrightarrow> shots_from [] (n @ [''ui_controls'']) (wd_screenshots s')"
proof -
  obtain r s1 w1 where a: "wd_controls_visible_body sys se s w = (r, s1, w1)"
    using prod_cases3 by blast
  with T have "wd_except ''UI Controls Visibility'' (r, s1, w1) = (b, s', w')"
    by (simp add: wd_test_controls_visible_def)
  note f = wd_except_props[OF this]
  with wd_controls_visible_body_props(1)[OF a] show "wd_driver s' = wd_driver s" by simp
  assume "shots_from [] n (wd_screenshots s)"
  from wd_controls_visible_body_props(2)[OF a this] f
  show "shots_from [] (n @ [''ui_controls'']) (wd_screenshots s')" by simp
qed

lemma wd_test_load_structure_props:
  assumes T: "wd_test_load_structure sys se struct s w = (b, s', w')"
  shows "wd_driver s' = wd_driver s"
    and "shots_from [] n (wd_screenshots s) \<Longrightarrow>
         shots_from [] (n @ [''structure_'' @ path_stem struct]) (wd_screenshots s')"
proof -
  obtain r s1 w1 where a: "wd_load_structure_body sys se struct s w = (r, s1, w1)"
    using prod_cases3 by blast
  with T have "wd_except (''Load Structure: '' @ struct) (r, s1, w1) = (b, s', w')"
    by (simp add: wd_test_load_structure_def)
  note f = wd_except_props[OF this]
  with wd_load_structure_body_props(1)[OF a] show "wd_driver s' = wd_driver s" by simp
  assume "shots_from [] n (wd_screenshots s)"
  from wd_load_structure_body_props(2)[OF a this] f
  show "shots_from [] (n @ [''structure_'' @ path_stem struct]) (wd_screenshots s')" by simp
qed

lemma wd_test_rotation_props:
  assumes T: "wd_test_rotation sys se s w = (b, s', w')"
  shows "wd_driver s' = wd_driver s"
    and "shots_from [] n (wd_screenshots s) \<Longrightarrow>
         shots_from [] (n @ [''rotation_before'', ''rotation_after'']) (wd_screenshots s')"
proof -
  obtain r s1 w1 where a: "wd_rotation_body sys se s w = (r, s1, w1)"
    using prod_cases3 by blast
  with T have "wd_except ''Rotation'' (r, s1, w1) = (b, s', w')"
    by (simp add: wd_test_rotation_def)
  note f = wd_except_props[OF this]
  with wd_rotation_body_props(1)[OF a] show "wd_driver s' = wd_driver s" by simp
  assume "shots_from [] n (wd_screenshots s)"
  from wd_rotation_body_props(2)[OF a this] f
  show "shots_from [] (n @ [''rotation_before'', ''rotation_after'']) (wd_screenshots s')" by simp
qed

lemma wd_try_structures_driver:
  "wd_try_structures sys se structs s w = (s', w') \<Longrightarrow> wd_driver s' = wd_driver s"
proof (induction structs arbitrary: s w)
  case Nil
  then show ?case by simp
next
  case (Cons x xs)
  obtain ex w1 where e: "fs_exists sys (structures_dir @ ''/'' @ x) w = (ex, w1)"
    by (cases "fs_exists sys (structures_dir @ ''/'' @ x) w")
  obtain b s1 w2 where t: "wd_test_load_structure sys se x s w1 = (b, s1, w2)"
    using prod_cases3 by blast
  show ?case
  proof (cases ex)
    case True
    with e have "fs_exists sys (structures_dir @ ''/'' @ x) w = (True, w1)" by simp
    with Cons.prems t have "wd_try_structures sys se xs s1 w2 = (s', w')" by simp
    from Cons.IH[OF this] wd_test_load_structure_props(1)[OF t] show ?thesis by simp
  next
    case False
    with e have "fs_exists sys (structures_dir @ ''/'' @ x) w = (False, w1)" by simp
    with Cons.prems have "wd_try_structures sys se xs s w1 = (s', w')" by simp
    from Cons.IH[OF this] show ?thesis .
  qed
qed

lemma wd_try_structures_shots:
  "shots_from [] n (wd_screenshots s) \<Longrightarrow>
   wd_try_structures sys se structs s w = (s', w') \<Longrightarrow>
   shots_from [] (n @ map (\<lambda>x. ''structure_'' @ path_stem x) structs) (wd_screenshots s')"
proof (induction structs arbitrary: s w n)
  case Nil
  then show ?case by simp
next
  case (Cons x xs)
  obtain ex w1 where e: "fs_exists sys (structures_dir @ ''/'' @ x) w = (ex, w1)"
    by (cases "fs_exists sys (structures_dir @ ''/'' @ x) w")
  obtain b s1 w2 where t: "wd_test_load_structure sys se x s w1 = (b, s1, w2)"
    using prod_cases3 by blast
  show ?case
  proof (cases ex)
    case True
    with e have "fs_exists sys (structures_dir @ ''/'' @ x) w = (True, w1)" by simp
    with Cons.prems t have r: "wd_try_structures sys se xs s1 w2 = (s', w')" by simp
    from wd_test_load_structure_props(2)[OF t Cons.prems(1)]
    have "shots_from [] (n @ [''structure_'' @ path_stem x]) (wd_screenshots s1)" .
    from Cons.IH[OF this r] show ?thesis by simp
  next
    case False
    with e have "fs_exists sys (structures_dir @ ''/'' @ x) w = (False, w1)" by simp
    with Cons.prems have r: "wd_try_structures sys se xs s w1 = (s', w')" by simp
    from shots_from_skip[OF Cons.prems(1), of "[''structure_'' @ path_stem x]"]
    have "shots_from [] (n @ [''structure_'' @ path_stem x]) (wd_screenshots s)" .
    from Cons.IH[OF this r] show ?thesis by simp
  qed
qed

lemma path_stem_water: "path_stem ''water.xyz'' = ''water''"
  by code_simp

lemma path_stem_methane: "path_stem ''methane.xyz'' = ''methane''"
  by code_simp

lemma wd_generate_report_state:
  "wd_generate_report sys s w = (r, d, s', w') \<Longrightarrow> s' = s"
  by (auto simp: wd_generate_report_def Let_def split: prod.splits sum.splits option.splits)

lemma wd_setup_driver_props:
  assumes "wd_setup_driver se wd_init w = (b, s, w')"
  shows "wd_screenshots s = []" and "wd_driver s = (\<not> isl (fst (chrome se w)))"
  using assms
  by (auto simp: wd_setup_driver_def wd_init_def Let_def split: prod.splits sum.splits)

lemma wd_main_body_props:
  assumes "wd_main_body sys se wd_init w = (ret, reports, s, w')"
  shows "shots_from [] wd_shot_names (wd_screenshots s)"
    and "wd_driver s = (\<not> isl (fst (chrome se w)))"
    and "reports = (if fst (wd_setup_driver se wd_init w) then 1 else 0)"
    and "ret = (if fst (wd_setup_driver se wd_init w) then None else Some 1)"
proof -
  obtain b0 s0 w0 where a: "wd_setup_driver se wd_init w = (b0, s0, w0)"
    using prod_cases3 by blast
  note p0 = wd_setup_driver_props[OF a]
  have "shots_from [] wd_shot_names (wd_screenshots s) \<and>
        wd_driver s = (\<not> isl (fst (chrome se w))) \<and>
        reports = (if b0 then 1 else 0) \<and> ret = (if b0 then None else Some 1)"
  proof (cases b0)
    case False
    with assms a have "s = s0" "reports = 0" "ret = Some 1" by (simp_all add: wd_main_body_def)
    with p0 False show ?thesis by (simp add: shots_from_Nil)
  next
    case True
    obtain b1 s1 w1 where t1: "wd_test_gui_loads sys se s0 w0 = (b1, s1, w1)"
      using prod_cases3 by blast
    obtain b2 s2 w2 where t2: "wd_test_controls_visible sys se s1 w1 = (b2, s2, w2)"
      using prod_cases3 by blast
    obtain s3 w3 where t3: "wd_try_structures sys se [''water.xyz'', ''methane.xyz''] s2 w2 = (s3, w3)"
      by (cases "wd_try_structures sys se [''water.xyz'', ''methane.xyz''] s2 w2")
    obtain b4 s4 w4 where t4: "wd_test_rotation sys se s3 w3 = (b4, s4, w4)"
      using prod_cases3 by blast
    obtain r5 d5 s5 w5 where t5: "wd_generate_report sys s4 w4 = (r5, d5, s5, w5)"
      using prod_cases4 by blast
    from t5 have s5: "s5 = s4" by (rule wd_generate_report_state)
    from a True have a': "wd_setup_driver se wd_init w = (True, s0, w0)" by simp
    from assms a' t1 t2 t3 t4 t5 have fin: "s = s5" "reports = 1" "ret = None"
      by (simp_all add: wd_main_body_def)
    have "shots_from [] [] (wd_screenshots s0)"
      using p0(1) by (simp add: shots_from_Nil)
    from wd_test_gui_loads_props(2)[OF t1 this]
    have "shots_from [] [''00_gui_loaded''] (wd_screenshots s1)" by simp
    from wd_test_controls_visible_props(2)[OF t2 this]
    have "shots_from [] [''00_gui_loaded'', ''ui_controls''] (wd_screenshots s2)" by simp
    from wd_try_structures_shots[OF this t3]
    have "shots_from [] [''00_gui_loaded'', ''ui_controls'', ''structure_water'', ''structure_methane'']
       (wd_screenshots s3)" by (simp add: path_stem_water path_stem_methane)
    from wd_test_rotation_props(2)[OF t4 this]
    have sh: "shots_from [] wd_shot_names (wd_screenshots s4)"
      by (simp add: wd_shot_names_def)
    have "wd_driver s4 = wd_driver s0"
      using wd_test_gui_loads_props(1)[OF t1] wd_test_controls_visible_props(1)[OF t2]
        wd_try_structures_driver[OF t3] wd_test_rotation_props(1)[OF t4] by simp
    with sh fin s5 p0 True show ?thesis by simp
  qed
  with a show "shots_from [] wd_shot_names (wd_screenshots s)"
    and "wd_driver s = (\<not> isl (fst (chrome se w)))"
    and "reports = (if fst (wd_setup_driver se wd_init w) then 1 else 0)"
    and "ret = (if fst (wd_setup_driver se wd_init w) then None else Some 1)"
    by simp_all
qed

lemma wd_main_props:
  shows "shots_from [] wd_shot_names (wd_screenshots (run_state (wd_main sys se w)))"
    and "run_releases (wd_main sys se w) = (if isl (fst (chrome se w)) then 0 else 1)"
    and "run_reports (wd_main sys se w) = (if fst (wd_setup_driver se wd_init w) then 1 else 0)"
proof -
  obtain ret reports s w1 where a: "wd_main_body sys se wd_init w = (ret, reports, s, w1)"
    using prod_cases4 by blast
  note p = wd_main_body_props[OF a]
  obtain r2 releases w2 where b: "wd_close_driver se s w1 = (r2, releases, w2)"
    using prod_cases3 by blast
  from b p(2) have rel: "releases = (if isl (fst (chrome se w)) then 0 else 1)"
    by (auto simp: wd_close_driver_def split: if_splits prod.splits)
  from a b have "run_state (wd_main sys se w) = s" "run_releases (wd_main sys se w) = releases"
    "run_reports (wd_main sys se w) = reports"
    by (simp_all add: wd_main_def)
  with p rel show "shots_from [] wd_shot_names (wd_screenshots (run_state (wd_main sys se w)))"
    and "run_releases (wd_main sys se w) = (if isl (fst (chrome se w)) then 0 else 1)"
    and "run_reports (wd_main sys se w) = (if fst (wd_setup_driver se wd_init w) then 1 else 0)"
    by simp_all
qed

end
